theory Spec2Isabelle
  imports Main "HOL-Library.Char_ord" "HOL-Library.List_Lexorder" "HOL-Library.Multiset"
begin

section \<open>Strings and paths\<close>

text \<open>
  Go strings are byte sequences: \<^typ>\<open>string\<close>. Go compares strings bytewise and
  lexicographically, a proper prefix being smaller; this is the order that
  \<open>Char_ord\<close> and \<open>List_Lexorder\<close> put on \<^typ>\<open>string\<close>.

  The functions of this section are the ones of Go's standard library that the program
  calls on paths and strings (\<open>strings.Join\<close>, \<open>strings.Trim\<close> with a one-byte cutset,
  and \<open>path/filepath\<close> on Unix, where the separator is \<open>/\<close> and there are no volume
  names). They are written after the library's documented, purely lexical behaviour.
\<close>

abbreviation nl :: string where
  "nl \<equiv> [CHR 0x0A]"

abbreviation dquote :: char where
  "dquote \<equiv> CHR 0x22"

fun strings_Join :: "string list \<Rightarrow> string \<Rightarrow> string" where
  "strings_Join [] sep = []"
| "strings_Join [x] sep = x"
| "strings_Join (x # y # ys) sep = x @ sep @ strings_Join (y # ys) sep"

definition strings_Trim :: "string \<Rightarrow> char \<Rightarrow> string" where
  "strings_Trim s c = rev (dropWhile (\<lambda>x. x = c) (rev (dropWhile (\<lambda>x. x = c) s)))"

text \<open>The elements of a path between separators; \<open>a//b\<close> has an empty element.\<close>

fun path_elems :: "string \<Rightarrow> string list" where
  "path_elems [] = [[]]"
| "path_elems (c # cs) =
     (if c = CHR ''/'' then [] # path_elems cs
      else (case path_elems cs of
              [] \<Rightarrow> [[c]]
            | e # es \<Rightarrow> (c # e) # es))"

text \<open>
  One element of \<open>filepath.Clean\<close>'s scan. The elements kept so far are a stack, the
  last one first. An empty element and \<open>.\<close> are dropped; \<open>..\<close> removes the last real
  element, is dropped at the root, and is kept at the start of a path that is not rooted.
\<close>

definition clean_elem :: "bool \<Rightarrow> string list \<Rightarrow> string \<Rightarrow> string list" where
  "clean_elem rooted st e =
     (if e = [] \<or> e = ''.'' then st
      else if e = ''..'' then
        (case st of
           [] \<Rightarrow> if rooted then [] else [''..'']
         | t # ts \<Rightarrow> if t = ''..'' then (if rooted then st else ''..'' # st) else ts)
      else e # st)"

definition is_rooted :: "string \<Rightarrow> bool" where
  "is_rooted p = (case p of [] \<Rightarrow> False | c # _ \<Rightarrow> c = CHR ''/'')"

definition filepath_Clean :: "string \<Rightarrow> string" where
  "filepath_Clean p =
     (if p = [] then ''.''
      else
        let rooted = is_rooted p;
            body = strings_Join (rev (foldl (clean_elem rooted) [] (path_elems p))) ''/''
        in if rooted then CHR ''/'' # body
           else if body = [] then ''.'' else body)"

text \<open>\<open>filepath.Join\<close>: empty elements before the first non-empty one are skipped, the
  rest is joined with the separator and cleaned; with no non-empty element the result is
  the empty string.\<close>

definition filepath_Join :: "string list \<Rightarrow> string" where
  "filepath_Join elem =
     (case dropWhile (\<lambda>e. e = []) elem of
        [] \<Rightarrow> []
      | es \<Rightarrow> filepath_Clean (strings_Join es ''/''))"

text \<open>\<open>filepath.Dir\<close>: everything up to and including the last separator, cleaned.\<close>

definition filepath_Dir :: "string \<Rightarrow> string" where
  "filepath_Dir p = filepath_Clean (rev (dropWhile (\<lambda>c. c \<noteq> CHR ''/'') (rev p)))"

text \<open>\<open>filepath.Ext\<close>: the suffix from the last dot of the last element, or nothing.
  The scan runs from the end of the path; \<open>acc\<close> is the part already passed.\<close>

fun ext_scan :: "string \<Rightarrow> string \<Rightarrow> string" where
  "ext_scan [] acc = []"
| "ext_scan (c # cs) acc =
     (if c = CHR ''/'' then []
      else if c = CHR ''.'' then c # acc
      else ext_scan cs (c # acc))"

definition filepath_Ext :: "string \<Rightarrow> string" where
  "filepath_Ext p = ext_scan (rev p) []"


text \<open>A Go error is modelled by its message.\<close>

type_synonym error = string


section \<open>The world outside the program\<close>

text \<open>
  The program acts on a file system and starts processes. The model keeps the contents of
  the files, the directories, and the calls made to the outside, oldest first. Whether a
  call to the outside succeeds is not decided by the program: each such call reads its
  result from an environment, a record of functions that may look at the whole world at
  the time of the call. The model follows what the program itself does to the file
  system; what a child process does to it is not part of the world.
\<close>

datatype event =
    EvImport string
  | EvLookPath string
  | EvGetwd
  | EvTempDir string string
  | EvRemoveAll string
  | EvMkdirAll string
  | EvOpenFile string
  | EvImportDir string
  | EvCommand string "string list" string
  | EvRunDSL
  | EvRoots
  | EvGenerator string

record world =
  files :: "string \<rightharpoonup> string"
  dirs :: "string set"
  trace :: "event list"

definition log_event :: "event \<Rightarrow> world \<Rightarrow> world" where
  "log_event e w = w\<lparr>trace := trace w @ [e]\<rparr>"

text \<open>An import declaration of a parsed Go file (\<open>ast.ImportSpec\<close>): the local name,
  when there is one, and the path as the literal stands in the source, quotes included.\<close>

record ast_ImportSpec =
  imp_Name :: "string option"
  imp_Path_Value :: string

text \<open>
  What the writer needs from the outside: the file system calls that can fail, the lookup
  of a directory's import path (\<open>build.ImportDir\<close>), and the Go tool libraries
  \<open>go/parser\<close>, \<open>go/scanner\<close>, \<open>astutil\<close> and \<open>imports\<close>, over a type \<open>'ast\<close> of
  syntax trees. \<open>imports_Process\<close> stands for \<open>imports.Process\<close> called with the options
  of \<open>formatCode\<close> (\<open>FormatOnly\<close> set).
\<close>

record 'ast codegen_env =
  mkdirAll_err :: "world \<Rightarrow> string \<Rightarrow> error option"
  openFile_err :: "world \<Rightarrow> string \<Rightarrow> error option"
  importDir_res :: "world \<Rightarrow> string \<Rightarrow> error + string"
  parser_Parse :: "string \<Rightarrow> string \<Rightarrow> error + 'ast"
  scanner_PrintError :: "error \<Rightarrow> string"
  astutil_Imports :: "'ast \<Rightarrow> ast_ImportSpec list list"
  astutil_UsesImport :: "'ast \<Rightarrow> string \<Rightarrow> bool"
  astutil_DeleteNamedImport :: "'ast \<Rightarrow> string \<Rightarrow> string \<Rightarrow> 'ast"
  astutil_DeleteImport :: "'ast \<Rightarrow> string \<Rightarrow> 'ast"
  imports_Process :: "string \<Rightarrow> string \<Rightarrow> error + string"

text \<open>\<open>os.MkdirAll\<close>; the world records the directory asked for.\<close>

definition os_MkdirAll :: "'ast codegen_env \<Rightarrow> string \<Rightarrow> world \<Rightarrow> error option \<times> world" where
  "os_MkdirAll env dir w =
     (let w' = log_event (EvMkdirAll dir) w in
      case mkdirAll_err env w dir of
        Some err \<Rightarrow> (Some err, w')
      | None \<Rightarrow> (None, w'\<lparr>dirs := insert dir (dirs w')\<rparr>))"

text \<open>\<open>os.OpenFile\<close> with \<open>O_CREATE\<close>, \<open>O_TRUNC\<close> and \<open>O_WRONLY\<close>: on success the file
  exists and is empty.\<close>

definition os_OpenFile :: "'ast codegen_env \<Rightarrow> string \<Rightarrow> world \<Rightarrow> error option \<times> world" where
  "os_OpenFile env path w =
     (let w' = log_event (EvOpenFile path) w in
      case openFile_err env w path of
        Some err \<Rightarrow> (Some err, w')
      | None \<Rightarrow> (None, w'\<lparr>files := (files w')(path \<mapsto> [])\<rparr>))"

text \<open>\<open>build.ImportDir\<close> with \<open>build.FindOnly\<close>; the result is the package's
  \<open>ImportPath\<close>.\<close>

definition build_ImportDir :: "'ast codegen_env \<Rightarrow> string \<Rightarrow> world \<Rightarrow> (error + string) \<times> world" where
  "build_ImportDir env dir w = (importDir_res env w dir, log_event (EvImportDir dir) w)"

text \<open>\<open>parser.ParseFile\<close> with no source given reads the file itself.\<close>

definition parser_ParseFile :: "'ast codegen_env \<Rightarrow> string \<Rightarrow> world \<Rightarrow> error + 'ast" where
  "parser_ParseFile env path w =
     (case files w path of
        None \<Rightarrow> Inl (''open '' @ path @ '': no such file or directory'')
      | Some src \<Rightarrow> parser_Parse env path src)"

text \<open>\<open>ioutil.ReadFile\<close> where the error is dropped: no file, no bytes.\<close>

definition ioutil_ReadFile_content :: "string \<Rightarrow> world \<Rightarrow> string" where
  "ioutil_ReadFile_content path w = (case files w path of None \<Rightarrow> [] | Some c \<Rightarrow> c)"


section \<open>The writer: package \<open>codegen\<close>\<close>

record Writer =
  Dir :: string
  Files :: "string set"

text \<open>A section is a template and its data. A template is modelled by what executing it
  does: the text it writes to the sink and the error it returns, if any.\<close>

record 'd Section =
  Template :: "'d \<Rightarrow> string \<times> error option"
  Data :: 'd

text \<open>The interface \<open>File\<close>: a value with the two methods.\<close>

record 'd File =
  Sections :: "string \<Rightarrow> 'd Section list"
  OutputPath :: "string set \<Rightarrow> string"

record ImportSpec =
  Name :: string
  Path :: string

definition NewWriter :: "string \<Rightarrow> Writer" where
  "NewWriter dir = \<lparr>Dir = dir, Files = {}\<rparr>"

definition ImportSpec_Code :: "ImportSpec \<Rightarrow> string" where
  "ImportSpec_Code s =
     (if length (Name s) > 0 then Name s @ '' '' @ [dquote] @ Path s @ [dquote]
      else [dquote] @ Path s @ [dquote])"

text \<open>\<open>Section.Write\<close> to the open file at \<open>path\<close>: the text is appended.\<close>

definition Section_Write :: "'d Section \<Rightarrow> string \<Rightarrow> world \<Rightarrow> error option \<times> world" where
  "Section_Write s path w =
     (case Template s (Data s) of
        (txt, err) \<Rightarrow> (err, w\<lparr>files := (files w)(path \<mapsto> ioutil_ReadFile_content path w @ txt)\<rparr>))"

text \<open>The loop of \<open>Write\<close> over the sections: it stops at the first error.\<close>

fun write_sections :: "'d Section list \<Rightarrow> string \<Rightarrow> world \<Rightarrow> error option \<times> world" where
  "write_sections [] path w = (None, w)"
| "write_sections (s # ss) path w =
     (case Section_Write s path w of
        (Some err, w') \<Rightarrow> (Some err, w')
      | (None, w') \<Rightarrow> write_sections ss path w')"

text \<open>The body of the loops of \<open>formatCode\<close> over the imports: the tree \<open>file\<close> is
  changed in place in the source, and returned here.\<close>

definition clean_import :: "'ast codegen_env \<Rightarrow> 'ast \<Rightarrow> ast_ImportSpec \<Rightarrow> 'ast" where
  "clean_import env file imp =
     (let path = strings_Trim (imp_Path_Value imp) dquote in
      if \<not> astutil_UsesImport env file path then
        (case imp_Name imp of
           Some name \<Rightarrow> astutil_DeleteNamedImport env file name path
         | None \<Rightarrow> astutil_DeleteImport env file path)
      else file)"

definition clean_imports :: "'ast codegen_env \<Rightarrow> 'ast \<Rightarrow> 'ast" where
  "clean_imports env file = foldl (foldl (clean_import env)) file (astutil_Imports env file)"

text \<open>
  \<open>formatCode\<close>. The bytes of the file are read into \<open>content\<close> before the tree is
  cleaned; the cleaned tree is the local \<open>file\<close> of the source and is not used after
  the loops: \<open>imports.Process\<close> is given \<open>content\<close>, and its result is what is written.
  The result of the last \<open>Write\<close> is dropped by the source.
\<close>

definition formatCode :: "'ast codegen_env \<Rightarrow> string \<Rightarrow> world \<Rightarrow> error option \<times> world" where
  "formatCode env path w =
     (let content = ioutil_ReadFile_content path w in
      case parser_ParseFile env path w of
        Inl err \<Rightarrow>
          (Some (scanner_PrintError env err @ nl @ ''========'' @ nl @ ''Content:'' @ nl @ content), w)
      | Inr file \<Rightarrow>
          let file = clean_imports env file in
          (case imports_Process env path content of
             Inl err \<Rightarrow> (Some err, w)
           | Inr b \<Rightarrow>
               (case os_OpenFile env path w of
                  (Some err, w') \<Rightarrow> (Some err, w')
                | (None, w') \<Rightarrow> (None, w'\<lparr>files := (files w')(path \<mapsto> b)\<rparr>))))"

text \<open>\<open>Writer.Write\<close>. The result is the error or the path, the writer and the world.\<close>

definition Write ::
  "'ast codegen_env \<Rightarrow> Writer \<Rightarrow> 'd File \<Rightarrow> world \<Rightarrow> (error + string) \<times> Writer \<times> world" where
  "Write env wr file w =
     (let path = filepath_Join [Dir wr, OutputPath file (Files wr)] in
      case os_MkdirAll env (filepath_Dir path) w of
        (Some err, w1) \<Rightarrow> (Inl err, wr, w1)
      | (None, w1) \<Rightarrow>
      (case os_OpenFile env path w1 of
        (Some err, w2) \<Rightarrow> (Inl err, wr, w2)
      | (None, w2) \<Rightarrow>
      (case build_ImportDir env (Dir wr) w2 of
        (Inl err, w3) \<Rightarrow> (Inl err, wr, w3)
      | (Inr genPkg, w3) \<Rightarrow>
      (case write_sections (Sections file genPkg) path w3 of
        (Some err, w4) \<Rightarrow> (Inl err, wr, w4)
      | (None, w4) \<Rightarrow>
          if filepath_Ext path = ''.go'' then
            (case formatCode env path w4 of
               (Some err, w5) \<Rightarrow> (Inl err, wr, w5)
             | (None, w5) \<Rightarrow> (Inr path, wr\<lparr>Files := insert path (Files wr)\<rparr>, w5))
          else (Inr path, wr\<lparr>Files := insert path (Files wr)\<rparr>, w4)))))"

text \<open>The loop of the generated driver over the files it writes (\<open>mainT\<close>): the paths
  are collected in the order of the files, and the first error ends the run.\<close>

fun write_files ::
  "'ast codegen_env \<Rightarrow> Writer \<Rightarrow> 'd File list \<Rightarrow> world \<Rightarrow> (error + string list) \<times> Writer \<times> world" where
  "write_files env wr [] w = (Inr [], wr, w)"
| "write_files env wr (f # fs) w =
     (case Write env wr f w of
        (Inl err, wr', w') \<Rightarrow> (Inl err, wr', w')
      | (Inr p, wr', w') \<Rightarrow>
          (case write_files env wr' fs w' of
             (Inl err, wr'', w'') \<Rightarrow> (Inl err, wr'', w'')
           | (Inr ps, wr'', w'') \<Rightarrow> (Inr (p # ps), wr'', w'')))"


section \<open>Generator synthesis: \<open>cmd/goagen/file.go\<close>\<close>

record mainFile =
  Generators :: "string list"
  DesignPath :: string

text \<open>The \<open>switch\<close> of \<open>Main\<close>; \<open>None\<close> is its \<open>default\<close> branch.\<close>

definition command_generator :: "string \<Rightarrow> string option" where
  "command_generator c =
     (if c = ''server'' then Some ''Server''
      else if c = ''client'' then Some ''Client''
      else if c = ''openapi'' then Some ''OpenAPI''
      else None)"

text \<open>The loop of \<open>Main\<close> over the commands, in order. \<open>Inl\<close> is the panic, with its
  message: it is raised at the first command that has no generator.\<close>

fun Main_gens :: "string list \<Rightarrow> string + string list" where
  "Main_gens [] = Inr []"
| "Main_gens (c # cs) =
     (case command_generator c of
        None \<Rightarrow> Inl (''unknown command '' @ c)
      | Some g \<Rightarrow>
          (case Main_gens cs of
             Inl p \<Rightarrow> Inl p
           | Inr gs \<Rightarrow> Inr (g # gs)))"

definition Main :: "string list \<Rightarrow> string \<Rightarrow> string + mainFile" where
  "Main commands designPath =
     (case Main_gens commands of
        Inl p \<Rightarrow> Inl p
      | Inr gens \<Rightarrow> Inr \<lparr>Generators = gens, DesignPath = designPath\<rparr>)"

text \<open>\<open>OutputPath\<close> of the main file: the reserved set is not looked at.\<close>

definition mainFile_OutputPath :: "mainFile \<Rightarrow> string set \<Rightarrow> string" where
  "mainFile_OutputPath m reserved = ''main.go''"


text \<open>
  The data a section of this program is rendered from: the generator names of the main
  file's body, and the title, package name and imports given to \<open>codegen.Header\<close>.
\<close>

datatype tdata =
    GeneratorNames "string list"
  | HeaderData string string "ImportSpec list"

text \<open>
  \<open>Sections\<close> of the main file. \<open>codegen.Header\<close> is not part of the sources at hand and
  the text of a template is rendered by \<open>text/template\<close>: the function \<open>Header\<close> and the
  parsed template \<open>mainTmpl\<close> are parameters. The import path \<open>genPkg\<close> is not used.
\<close>

definition mainFile_Sections ::
  "(string \<Rightarrow> string \<Rightarrow> ImportSpec list \<Rightarrow> tdata Section) \<Rightarrow> (tdata \<Rightarrow> string \<times> error option) \<Rightarrow>
   mainFile \<Rightarrow> string \<Rightarrow> tdata Section list" where
  "mainFile_Sections Header mainTmpl m genPkg =
     (let header = Header ''Generator main'' ''main''
            [\<lparr>Name = [], Path = ''flag''\<rparr>,
             \<lparr>Name = [], Path = ''fmt''\<rparr>,
             \<lparr>Name = [], Path = ''os''\<rparr>,
             \<lparr>Name = [], Path = ''sort''\<rparr>,
             \<lparr>Name = [], Path = ''strings''\<rparr>,
             \<lparr>Name = [], Path = ''goa.design/goa.v2/codegen''\<rparr>,
             \<lparr>Name = [], Path = ''goa.design/goa.v2/codegen/generators''\<rparr>,
             \<lparr>Name = [], Path = ''goa.design/goa.v2/eval''\<rparr>,
             \<lparr>Name = [], Path = ''goa.design/goa.v2/pkg''\<rparr>,
             \<lparr>Name = ''_'', Path = DesignPath m\<rparr>];
          body = \<lparr>Template = mainTmpl, Data = GeneratorNames (Generators m)\<rparr>
      in [header, body])"

text \<open>The main file as a \<open>codegen.File\<close>.\<close>

definition mainFile_File ::
  "(string \<Rightarrow> string \<Rightarrow> ImportSpec list \<Rightarrow> tdata Section) \<Rightarrow> (tdata \<Rightarrow> string \<times> error option) \<Rightarrow>
   mainFile \<Rightarrow> tdata File" where
  "mainFile_File Header mainTmpl m =
     \<lparr>Sections = mainFile_Sections Header mainTmpl m, OutputPath = mainFile_OutputPath m\<rparr>"


section \<open>The generated driver: the template \<open>mainT\<close>\<close>

text \<open>
  The program that \<open>mainT\<close> renders to. The template repeats the statements
  \<open>fs, err := generator.X(roots...)\<close>, the test of \<open>err\<close> and the \<open>append\<close> once for
  each generator name, all inside one block. With two names or more the second
  \<open>fs, err :=\<close> declares no new variable, and with no name \<open>roots\<close> is declared and not
  used: the Go compiler accepts the rendered program for exactly one name. The model is
  the driver of one generator name \<open>gen\<close>.

  The flags are given as \<open>flag.Parse\<close> leaves them: the value of \<open>--output\<close> and of
  \<open>--version\<close>, empty when the flag is absent. What the driver needs from the packages
  \<open>eval\<close>, \<open>generator\<close> and \<open>pkg\<close> is read from an environment.
\<close>

record ('r, 'd) gen_env =
  eval_Context_Errors :: "error option"
  runDSL_err :: "world \<Rightarrow> error option"
  roots_res :: "world \<Rightarrow> error + 'r list"
  generator_res :: "string \<Rightarrow> world \<Rightarrow> 'r list \<Rightarrow> error + 'd File list"
  drv_Version :: string
  drv_Sprintf :: "string \<Rightarrow> string list \<Rightarrow> string"

record proc_exit =
  exit_code :: int
  stdout :: string
  stderr :: string

text \<open>\<open>fail\<close> prints to standard error and exits with code 1: the run ends there.\<close>

definition fail :: "('r, 'd) gen_env \<Rightarrow> string \<Rightarrow> string list \<Rightarrow> proc_exit" where
  "fail g msg vals = \<lparr>exit_code = 1, stdout = [], stderr = drv_Sprintf g msg vals\<rparr>"

definition eval_RunDSL :: "('r, 'd) gen_env \<Rightarrow> world \<Rightarrow> error option \<times> world" where
  "eval_RunDSL g w = (runDSL_err g w, log_event EvRunDSL w)"

definition eval_Context_Roots :: "('r, 'd) gen_env \<Rightarrow> world \<Rightarrow> (error + 'r list) \<times> world" where
  "eval_Context_Roots g w = (roots_res g w, log_event EvRoots w)"

definition generator_call ::
  "('r, 'd) gen_env \<Rightarrow> string \<Rightarrow> 'r list \<Rightarrow> world \<Rightarrow> (error + 'd File list) \<times> world" where
  "generator_call g name roots w = (generator_res g name w roots, log_event (EvGenerator name) w)"

text \<open>\<open>main\<close> of the driver. The slice \<open>files\<close> is empty when the files of the
  generator are appended to it.\<close>

definition driver_main ::
  "('r, 'd) gen_env \<Rightarrow> 'ast codegen_env \<Rightarrow> string \<Rightarrow> string \<Rightarrow> string \<Rightarrow> world \<Rightarrow>
   proc_exit \<times> world" where
  "driver_main g env gen out version w =
     (if out = [] then (fail g ''missing output flag'' [], w)
      else if version = [] then (fail g ''missing version flag'' [], w)
      else if version \<noteq> drv_Version g then
        (fail g (''goa DSL was run with goa version %s but compiled generator is running %s'' @ nl)
           [version, drv_Version g], w)
      else
      (case eval_Context_Errors g of
        Some err \<Rightarrow> (fail g err [], w)
      | None \<Rightarrow>
      (case eval_RunDSL g w of
        (Some err, w1) \<Rightarrow> (fail g err [], w1)
      | (None, w1) \<Rightarrow>
      (case eval_Context_Roots g w1 of
        (Inl err, w2) \<Rightarrow> (fail g err [], w2)
      | (Inr roots, w2) \<Rightarrow>
      (case generator_call g gen roots w2 of
        (Inl err, w3) \<Rightarrow> (fail g err [], w3)
      | (Inr fs, w3) \<Rightarrow>
      (case write_files env (NewWriter out) ([] @ fs) w3 of
        (Inl err, wr, w4) \<Rightarrow> (fail g err [], w4)
      | (Inr outputs, wr, w4) \<Rightarrow>
          (\<lparr>exit_code = 0, stdout = strings_Join (sort outputs) nl @ nl, stderr = []\<rparr>, w4)))))))"


section \<open>The orchestrator: \<open>generate\<close> of \<open>cmd/goagen/main.go\<close>\<close>

text \<open>
  What \<open>generate\<close> needs from the host: the build environment (\<open>build.Import\<close>), the
  search for the compiler, the working directory, the creation of the temporary
  directory, the two child processes (\<open>CombinedOutput\<close> gives the output and the error),
  the operating system's name, the version of \<open>pkg\<close> and \<open>fmt\<close>'s formatting.
\<close>

record host_env =
  import_err :: "world \<Rightarrow> string \<Rightarrow> error option"
  lookPath_res :: "world \<Rightarrow> string \<Rightarrow> string option"
  getenv_PATH :: string
  getwd_res :: "world \<Rightarrow> string \<times> error option"
  tempDir_res :: "world \<Rightarrow> string \<Rightarrow> string \<Rightarrow> error + string"
  combinedOutput_res :: "world \<Rightarrow> string \<Rightarrow> string list \<Rightarrow> string \<Rightarrow> string \<times> error option"
  runtime_GOOS :: string
  pkg_Version :: string
  fmt_Sprintf :: "string \<Rightarrow> string list \<Rightarrow> string"

text \<open>A call either returns or panics.\<close>

datatype 'a outcome = Returned 'a | Panicked string

definition build_Import :: "host_env \<Rightarrow> string \<Rightarrow> world \<Rightarrow> error option \<times> world" where
  "build_Import host path w = (import_err host w path, log_event (EvImport path) w)"

definition exec_LookPath :: "host_env \<Rightarrow> string \<Rightarrow> world \<Rightarrow> string option \<times> world" where
  "exec_LookPath host name w = (lookPath_res host w name, log_event (EvLookPath name) w)"

definition os_Getwd :: "host_env \<Rightarrow> world \<Rightarrow> (string \<times> error option) \<times> world" where
  "os_Getwd host w = (getwd_res host w, log_event EvGetwd w)"

text \<open>\<open>ioutil.TempDir\<close>: on success the new directory exists.\<close>

definition ioutil_TempDir :: "host_env \<Rightarrow> string \<Rightarrow> string \<Rightarrow> world \<Rightarrow> (error + string) \<times> world" where
  "ioutil_TempDir host dir pfx w =
     (let w' = log_event (EvTempDir dir pfx) w in
      case tempDir_res host w dir pfx of
        Inl err \<Rightarrow> (Inl err, w')
      | Inr name \<Rightarrow> (Inr name, w'\<lparr>dirs := insert name (dirs w')\<rparr>))"

text \<open>Whether \<open>q\<close> is \<open>p\<close> or lies below the directory \<open>p\<close>.\<close>

definition under :: "string \<Rightarrow> string \<Rightarrow> bool" where
  "under p q = (q = p \<or> take (length p + 1) q = p @ ''/'')"

text \<open>\<open>os.RemoveAll\<close>, whose result the source drops: the directory and all below it
  are gone.\<close>

definition os_RemoveAll :: "string \<Rightarrow> world \<Rightarrow> world" where
  "os_RemoveAll p w =
     (log_event (EvRemoveAll p) w)
       \<lparr>files := (\<lambda>q. if under p q then None else files w q),
        dirs := Set.filter (\<lambda>q. \<not> under p q) (dirs w)\<rparr>"

definition exec_CombinedOutput ::
  "host_env \<Rightarrow> string \<Rightarrow> string list \<Rightarrow> string \<Rightarrow> world \<Rightarrow> (string \<times> error option) \<times> world" where
  "exec_CombinedOutput host path args dir w =
     (combinedOutput_res host w path args dir, log_event (EvCommand path args dir) w)"

text \<open>
  \<open>generate\<close> from the creation of the writer to its last \<open>return\<close>: the driver is
  written into the workspace \<open>tmpDir\<close>, compiled and run. \<open>Main\<close> is evaluated first, as
  the argument of \<open>Write\<close>, and may panic.
\<close>

definition generate_run ::
  "host_env \<Rightarrow> 'ast codegen_env \<Rightarrow> (string \<Rightarrow> string \<Rightarrow> ImportSpec list \<Rightarrow> tdata Section) \<Rightarrow>
   (tdata \<Rightarrow> string \<times> error option) \<Rightarrow> string list \<Rightarrow> string \<Rightarrow> string \<Rightarrow> string \<Rightarrow> string \<Rightarrow>
   world \<Rightarrow> (error + string) outcome \<times> world" where
  "generate_run host env Header mainTmpl cmds path output gobin tmpDir w =
     (case Main cmds path of
        Inl p \<Rightarrow> (Panicked p, w)
      | Inr m \<Rightarrow>
      (case Write env (NewWriter tmpDir) (mainFile_File Header mainTmpl m) w of
        (Inl err, wr, w1) \<Rightarrow> (Returned (Inl err), w1)
      | (Inr written, wr, w1) \<Rightarrow>
          let out = ''goagen'' @ (if runtime_GOOS host = ''windows'' then ''.exe'' else []) in
          (case exec_CombinedOutput host gobin [gobin, ''build'', ''-o'', out] tmpDir w1 of
             ((cout, Some err), w2) \<Rightarrow>
               (Returned (Inl (''failed to compile generator: '' @
                  (if length cout > 0 then fmt_Sprintf host cout [] else err))), w2)
           | ((cout, None), w2) \<Rightarrow>
               let args = [''--version='' @ pkg_Version host, ''--output='' @ output];
                   bin = filepath_Join [tmpDir, out]
               in (case exec_CombinedOutput host bin (bin # args) [] w2 of
                     ((cout, Some err), w3) \<Rightarrow> (Returned (Inl (err @ nl @ cout)), w3)
                   | ((cout, None), w3) \<Rightarrow> (Returned (Inr cout), w3)))))"

text \<open>
  \<open>generate\<close> once the workspace exists: the removal of the workspace is deferred
  unless \<open>debug\<close> is set, and a deferred call runs when the function returns and when it
  panics.
\<close>

definition generate_staged ::
  "host_env \<Rightarrow> 'ast codegen_env \<Rightarrow> (string \<Rightarrow> string \<Rightarrow> ImportSpec list \<Rightarrow> tdata Section) \<Rightarrow>
   (tdata \<Rightarrow> string \<times> error option) \<Rightarrow> string list \<Rightarrow> string \<Rightarrow> string \<Rightarrow> bool \<Rightarrow> string \<Rightarrow> string \<Rightarrow>
   world \<Rightarrow> (error + string) outcome \<times> world" where
  "generate_staged host env Header mainTmpl cmds path output debug gobin tmpDir w =
     (case generate_run host env Header mainTmpl cmds path output gobin tmpDir w of
        (r, w') \<Rightarrow> (r, if \<not> debug then os_RemoveAll tmpDir w' else w'))"

text \<open>\<open>generate\<close>. The working directory \<open>wd\<close> is replaced by the result of
  \<open>os.Getwd\<close> when that call returned an error, as the source has it. The argument
  \<open>gens\<close> is not used by the source.\<close>

definition generate ::
  "host_env \<Rightarrow> 'ast codegen_env \<Rightarrow> (string \<Rightarrow> string \<Rightarrow> ImportSpec list \<Rightarrow> tdata Section) \<Rightarrow>
   (tdata \<Rightarrow> string \<times> error option) \<Rightarrow> string list \<Rightarrow> string \<Rightarrow> string \<Rightarrow> bool \<Rightarrow> bool \<Rightarrow>
   world \<Rightarrow> (error + string) outcome \<times> world" where
  "generate host env Header mainTmpl cmds path output gens debug w =
     (case build_Import host path w of
        (Some err, w1) \<Rightarrow> (Returned (Inl err), w1)
      | (None, w1) \<Rightarrow>
      (case exec_LookPath host ''go'' w1 of
        (None, w2) \<Rightarrow>
          (Returned (Inl (''failed to find a go compiler, looked in '' @ [dquote] @
             getenv_PATH host @ [dquote])), w2)
      | (Some gobin, w2) \<Rightarrow>
      (case os_Getwd host w2 of
        ((cwd, gerr), w3) \<Rightarrow>
          let wd = (if gerr \<noteq> None then cwd else ''.'') in
          (case ioutil_TempDir host wd ''goagen'' w3 of
             (Inl err, w4) \<Rightarrow> (Returned (Inl err), w4)
           | (Inr tmpDir, w4) \<Rightarrow>
               generate_staged host env Header mainTmpl cmds path output debug gobin tmpDir w4))))"


text \<open>The calls to \<open>build.ImportDir\<close> in a trace, and their number.\<close>

definition importDir_events :: "event list \<Rightarrow> event list" where
  "importDir_events evs = filter (\<lambda>e. case e of EvImportDir d \<Rightarrow> True | _ \<Rightarrow> False) evs"

definition importDir_calls :: "event list \<Rightarrow> nat" where
  "importDir_calls evs = length (importDir_events evs)"


section \<open>A concrete environment\<close>

text \<open>
  To run the model, the environment is instantiated once: a small Go file, its syntax
  tree, the \<open>astutil\<close> functions on such trees, and a host where every call succeeds.
  A tree lists the import declarations by group and the package names that the body of
  the file selects from (\<open>fmt\<close> in \<open>fmt.Println\<close>).
\<close>

record go_ast =
  ast_imports :: "ast_ImportSpec list list"
  ast_selectors :: "string list"

definition demo_header :: string where
  "demo_header =
     ''package main'' @ nl @ nl @
     ''import ('' @ nl @
     [CHR 0x09, dquote] @ ''fmt'' @ [dquote] @ nl @
     [CHR 0x09, dquote] @ ''os'' @ [dquote] @ nl @
     '')'' @ nl @ nl"

definition demo_body :: string where
  "demo_body =
     ''func main() {'' @ nl @
     [CHR 0x09] @ ''fmt.Println()'' @ nl @
     ''}'' @ nl"

definition demo_ast :: go_ast where
  "demo_ast =
     \<lparr>ast_imports =
        [[\<lparr>imp_Name = None, imp_Path_Value = [dquote] @ ''fmt'' @ [dquote]\<rparr>,
          \<lparr>imp_Name = None, imp_Path_Value = [dquote] @ ''os'' @ [dquote]\<rparr>]],
      ast_selectors = [''fmt'']\<rparr>"

text \<open>\<open>astutil.UsesImport\<close>: the import is looked up by its path; an import named \<open>_\<close>
  or \<open>.\<close> counts as used; otherwise its name, or the last element of its path when it
  has no name, must be selected from in the body.\<close>

definition demo_UsesImport :: "go_ast \<Rightarrow> string \<Rightarrow> bool" where
  "demo_UsesImport f path =
     (case find (\<lambda>s. strings_Trim (imp_Path_Value s) dquote = path) (concat (ast_imports f)) of
        None \<Rightarrow> False
      | Some spec \<Rightarrow>
          (case imp_Name spec of
             None \<Rightarrow> last (path_elems path) \<in> set (ast_selectors f)
           | Some n \<Rightarrow> if n = ''_'' \<or> n = ''.'' then True else n \<in> set (ast_selectors f)))"

text \<open>\<open>astutil.DeleteNamedImport\<close>: the declarations with this name and path go, and
  a group left empty goes with them. \<open>astutil.DeleteImport\<close> is the same with no name.\<close>

definition demo_DeleteNamedImport :: "go_ast \<Rightarrow> string \<Rightarrow> string \<Rightarrow> go_ast" where
  "demo_DeleteNamedImport f name path =
     f\<lparr>ast_imports :=
          filter (\<lambda>g. g \<noteq> [])
            (map (filter (\<lambda>s. \<not> ((case imp_Name s of None \<Rightarrow> [] | Some n \<Rightarrow> n) = name \<and>
                                   strings_Trim (imp_Path_Value s) dquote = path)))
               (ast_imports f))\<rparr>"

text \<open>The writer's environment: no file system call fails, the parser knows the one
  file, and formatting that file, which is formatted already, gives it back.\<close>

definition demo_env :: "go_ast codegen_env" where
  "demo_env =
     \<lparr>mkdirAll_err = (\<lambda>w dir. None),
      openFile_err = (\<lambda>w path. None),
      importDir_res = (\<lambda>w dir. Inr ''goa.design/cellar/gen''),
      parser_Parse = (\<lambda>name src. if src = demo_header @ demo_body then Inr demo_ast
                                   else Inl (name @ '':1:1: syntax error'')),
      scanner_PrintError = (\<lambda>err. err @ nl),
      astutil_Imports = ast_imports,
      astutil_UsesImport = demo_UsesImport,
      astutil_DeleteNamedImport = demo_DeleteNamedImport,
      astutil_DeleteImport = (\<lambda>f path. demo_DeleteNamedImport f [] path),
      imports_Process = (\<lambda>name src. Inr src)\<rparr>"

text \<open>A file of two sections that render the header and the body, at a path of its
  own choice that does not look at the reserved set.\<close>

definition demo_file :: "string \<Rightarrow> string File" where
  "demo_file name =
     \<lparr>Sections = (\<lambda>genPkg. [\<lparr>Template = (\<lambda>d. (d, None)), Data = demo_header\<rparr>,
                             \<lparr>Template = (\<lambda>d. (d, None)), Data = demo_body\<rparr>]),
      OutputPath = (\<lambda>reserved. name)\<rparr>"

text \<open>The main file of the commands \<open>server\<close> and \<open>openapi\<close>, with a header function and
  a main template that render the header and the body above.\<close>

definition demo_Header :: "string \<Rightarrow> string \<Rightarrow> ImportSpec list \<Rightarrow> tdata Section" where
  "demo_Header title pkg imps = \<lparr>Template = (\<lambda>d. (demo_header, None)), Data = HeaderData title pkg imps\<rparr>"

definition demo_mainTmpl :: "tdata \<Rightarrow> string \<times> error option" where
  "demo_mainTmpl d = (demo_body, None)"

definition demo_main :: "tdata File" where
  "demo_main =
     mainFile_File demo_Header demo_mainTmpl
       \<lparr>Generators = [''Server'', ''OpenAPI''], DesignPath = ''goa.design/cellar/design''\<rparr>"

definition world0 :: world where
  "world0 = \<lparr>files = Map.empty, dirs = {}, trace = []\<rparr>"

text \<open>A host where the description resolves, the compiler is found, the workspace is
  \<open>goagen123\<close> and both child processes succeed; and one where they fail.\<close>

definition demo_host :: host_env where
  "demo_host =
     \<lparr>import_err = (\<lambda>w path. if path = ''goa.design/cellar/design'' then None
                               else Some (''cannot find package '' @ path)),
      lookPath_res = (\<lambda>w name. Some ''/usr/bin/go''),
      getenv_PATH = ''/usr/bin'',
      getwd_res = (\<lambda>w. (''/home/dev/cellar'', None)),
      tempDir_res = (\<lambda>w dir pfx. Inr ''goagen123''),
      combinedOutput_res = (\<lambda>w path args dir.
         if path = ''/usr/bin/go'' then ([], None) else (''gen/service.go'' @ nl, None)),
      runtime_GOOS = ''linux'',
      pkg_Version = ''v2.0.0'',
      fmt_Sprintf = (\<lambda>format vals. format)\<rparr>"

definition failing_host :: host_env where
  "failing_host =
     demo_host\<lparr>combinedOutput_res := (\<lambda>w path args dir. (''build failed'', Some ''exit status 2''))\<rparr>"

text \<open>The driver's environment: a valid description and a generator that gives two
  files.\<close>

definition demo_gen :: "(unit, string) gen_env" where
  "demo_gen =
     \<lparr>eval_Context_Errors = None,
      runDSL_err = (\<lambda>w. None),
      roots_res = (\<lambda>w. Inr [()]),
      generator_res = (\<lambda>name w roots. Inr [demo_file ''server.go'', demo_file ''client.go'']),
      drv_Version = ''v2.0.0'',
      drv_Sprintf = (\<lambda>format vals. format)\<rparr>"


text \<open>An environment where no file can be opened.\<close>

definition readonly_env :: "go_ast codegen_env" where
  "readonly_env = demo_env\<lparr>openFile_err := (\<lambda>w path. Some ''permission denied'')\<rparr>"

text \<open>A file that follows the contract of \<open>OutputPath\<close> on its relative path: it asks for
  \<open>service.go\<close> and, when that is reserved, for \<open>service_2.go\<close>.\<close>

definition renaming_file :: "string File" where
  "renaming_file =
     \<lparr>Sections = Sections (demo_file []),
      OutputPath = (\<lambda>reserved. if ''service.go'' \<in> reserved then ''service_2.go''
                                else ''service.go'')\<rparr>"


section \<open>Properties of generator synthesis\<close>

lemma Main_gens_valid:
  "set cs \<subseteq> {''server'', ''client'', ''openapi''} \<Longrightarrow>
   Main_gens cs =
     Inr (map (\<lambda>c. if c = ''server'' then ''Server''
                    else if c = ''client'' then ''Client'' else ''OpenAPI'') cs)"
  by (induction cs) (auto simp: command_generator_def)

lemma Main_gens_invalid:
  "\<not> set cs \<subseteq> {''server'', ''client'', ''openapi''} \<Longrightarrow>
   \<exists>c. Main_gens cs = Inl (''unknown command '' @ c) \<and> c \<in> set cs \<and>
       c \<notin> {''server'', ''client'', ''openapi''}"
proof (induction cs)
  case Nil
  then show ?case by simp
next
  case (Cons a cs)
  show ?case
  proof (cases "command_generator a")
    case None
    then have "a \<notin> {''server'', ''client'', ''openapi''}"
      by (auto simp: command_generator_def split: if_splits)
    with None show ?thesis by auto
  next
    case (Some g)
    then have "a \<in> {''server'', ''client'', ''openapi''}"
      by (auto simp: command_generator_def split: if_splits)
    with Cons.prems have "\<not> set cs \<subseteq> {''server'', ''client'', ''openapi''}" by auto
    from Cons.IH [OF this] Some show ?thesis by auto
  qed
qed

text \<open>
  Claim C9. \<open>Main\<close> knows exactly the commands \<open>server\<close>, \<open>client\<close> and \<open>openapi\<close>. When
  every command of the list is one of the three, \<open>Main\<close> does not panic and the main file
  lists the generators \<open>Server\<close>, \<open>Client\<close>, \<open>OpenAPI\<close> of the commands, in the order of
  the commands. When some command is not one of the three, \<open>Main\<close> panics with
  \<open>unknown command\<close> and the name of such a command.
\<close>

theorem Main_closed_mapping:
  "(set commands \<subseteq> {''server'', ''client'', ''openapi''} \<longrightarrow>
      Main commands designPath =
        Inr \<lparr>Generators =
               map (\<lambda>c. if c = ''server'' then ''Server''
                         else if c = ''client'' then ''Client'' else ''OpenAPI'') commands,
             DesignPath = designPath\<rparr>) \<and>
   (\<not> set commands \<subseteq> {''server'', ''client'', ''openapi''} \<longrightarrow>
      (\<exists>c. Main commands designPath = Inl (''unknown command '' @ c) \<and>
           c \<in> set commands \<and> c \<notin> {''server'', ''client'', ''openapi''}))"
proof (intro conjI impI)
  assume "set commands \<subseteq> {''server'', ''client'', ''openapi''}"
  then show "Main commands designPath =
        Inr \<lparr>Generators =
               map (\<lambda>c. if c = ''server'' then ''Server''
                         else if c = ''client'' then ''Client'' else ''OpenAPI'') commands,
             DesignPath = designPath\<rparr>"
    by (simp add: Main_def Main_gens_valid)
next
  assume "\<not> set commands \<subseteq> {''server'', ''client'', ''openapi''}"
  from Main_gens_invalid [OF this]
  show "\<exists>c. Main commands designPath = Inl (''unknown command '' @ c) \<and>
           c \<in> set commands \<and> c \<notin> {''server'', ''client'', ''openapi''}"
    by (auto simp: Main_def)
qed

theorem Main_closed_mapping_witness:
  "Main [''server'', ''openapi''] ''goa.design/cellar/design'' =
     Inr \<lparr>Generators = [''Server'', ''OpenAPI''], DesignPath = ''goa.design/cellar/design''\<rparr> \<and>
   (\<exists>c. Main [''server'', ''scaffold''] ''goa.design/cellar/design'' =
          Inl (''unknown command '' @ c))"
proof -
  have a: "set [''server'', ''openapi''] \<subseteq> {''server'', ''client'', ''openapi''}"
    by simp
  have b: "\<not> set [''server'', ''scaffold''] \<subseteq> {''server'', ''client'', ''openapi''}"
    by simp
  have 1: "Main [''server'', ''openapi''] ''goa.design/cellar/design'' =
     Inr \<lparr>Generators = [''Server'', ''OpenAPI''], DesignPath = ''goa.design/cellar/design''\<rparr>"
    using Main_closed_mapping [of "[''server'', ''openapi'']" "''goa.design/cellar/design''",
        THEN conjunct1, THEN mp, OF a]
    by simp
  have 2: "\<exists>c. Main [''server'', ''scaffold''] ''goa.design/cellar/design'' =
          Inl (''unknown command '' @ c)"
    using Main_closed_mapping [of "[''server'', ''scaffold'']" "''goa.design/cellar/design''",
        THEN conjunct2, THEN mp, OF b]
    by blast
  from 1 2 show ?thesis by (rule conjI)
qed


section \<open>Properties of the writer\<close>

lemma write_sections_trace:
  "write_sections ss path w = (r, w') \<Longrightarrow> trace w' = trace w \<and> dirs w' = dirs w"
  by (induction ss arbitrary: w) (auto simp: Section_Write_def split: prod.splits option.splits)

lemma formatCode_trace:
  "formatCode env path w = (None, w') \<Longrightarrow> trace w' = trace w @ [EvOpenFile path] \<and> dirs w' = dirs w"
  by (auto simp: formatCode_def os_OpenFile_def log_event_def Let_def
      split: sum.splits option.splits prod.splits)

lemma Write_result:
  "Write env wr file w = (r, wr', w') \<Longrightarrow>
   (\<forall>err. r = Inl err \<longrightarrow> wr' = wr) \<and>
   (\<forall>p. r = Inr p \<longrightarrow> p = filepath_Join [Dir wr, OutputPath file (Files wr)] \<and>
          wr' = wr\<lparr>Files := insert p (Files wr)\<rparr>)"
  unfolding Write_def Let_def
  by (auto split: prod.splits option.splits sum.splits if_splits)

text \<open>The calls a successful \<open>Write\<close> makes to the outside, in order.\<close>

lemma Write_trace:
  "Write env wr file w = (Inr p, wr', w') \<Longrightarrow>
   trace w' = trace w @ [EvMkdirAll (filepath_Dir p), EvOpenFile p, EvImportDir (Dir wr)] @
     (if filepath_Ext p = ''.go'' then [EvOpenFile p] else [])"
  unfolding Write_def Let_def
  by (auto simp: os_MkdirAll_def os_OpenFile_def build_ImportDir_def log_event_def Let_def
      dest!: write_sections_trace formatCode_trace
      split: prod.splits option.splits sum.splits if_splits)

lemma triple_collapse: "x = (fst x, fst (snd x), snd (snd x))"
  by simp

text \<open>
  Claim C6. When \<open>Write\<close> returns an error, whichever step failed, the registry of the
  writer is what it was before the call. When \<open>Write\<close> succeeds, the path it returns is
  the directory of the writer joined with the output path of the file, and the registry
  is the old one with that path added.
\<close>

theorem Write_registry:
  "Write env wr file w = (r, wr', w') \<Longrightarrow>
   (\<forall>err. r = Inl err \<longrightarrow> Files wr' = Files wr) \<and>
   (\<forall>p. r = Inr p \<longrightarrow> p = filepath_Join [Dir wr, OutputPath file (Files wr)] \<and>
          Files wr' = insert p (Files wr))"
  unfolding Write_def Let_def
  by (auto split: prod.splits option.splits sum.splits if_splits)

subsection \<open>Running the writer in the concrete environment\<close>

text \<open>The paths of the runs below, and the result of \<open>Write\<close> in the concrete environment
  for a file whose sections render the known source and whose path ends in \<open>.go\<close>.\<close>

lemma demo_paths:
  "filepath_Join [''goagen123'', ''main.go''] = ''goagen123/main.go''"
  "filepath_Dir ''goagen123/main.go'' = ''goagen123''"
  "filepath_Ext ''goagen123/main.go'' = ''.go''"
  "filepath_Join [''.'', ''main.go''] = ''main.go''"
  "filepath_Dir ''main.go'' = ''.''"
  "filepath_Ext ''main.go'' = ''.go''"
  "filepath_Join [''out'', ''main.go''] = ''out/main.go''"
  "filepath_Dir ''out/main.go'' = ''out''"
  "filepath_Ext ''out/main.go'' = ''.go''"
  "filepath_Join [''out'', ''server.go''] = ''out/server.go''"
  "filepath_Dir ''out/server.go'' = ''out''"
  "filepath_Ext ''out/server.go'' = ''.go''"
  "filepath_Join [''out'', ''client.go''] = ''out/client.go''"
  "filepath_Dir ''out/client.go'' = ''out''"
  "filepath_Ext ''out/client.go'' = ''.go''"
  "filepath_Join [''out'', ''service.go''] = ''out/service.go''"
  "filepath_Dir ''out/service.go'' = ''out''"
  "filepath_Ext ''out/service.go'' = ''.go''"
  by (simp_all add: filepath_Join_def filepath_Clean_def filepath_Dir_def filepath_Ext_def
      clean_elem_def is_rooted_def)


lemma demo_write_sections:
  "write_sections (Sections (demo_file name) genPkg) p w =
     (None, w\<lparr>files := (files w)(p \<mapsto> ioutil_ReadFile_content p w @ demo_header @ demo_body)\<rparr>)"
  by (simp add: demo_file_def Section_Write_def ioutil_ReadFile_content_def)

lemma demo_main_write_sections:
  "write_sections (Sections demo_main genPkg) p w =
     (None, w\<lparr>files := (files w)(p \<mapsto> ioutil_ReadFile_content p w @ demo_header @ demo_body)\<rparr>)"
  by (simp add: demo_main_def mainFile_File_def mainFile_Sections_def demo_Header_def
      demo_mainTmpl_def Section_Write_def ioutil_ReadFile_content_def Let_def)

lemma demo_formatCode:
  "files w p = Some (demo_header @ demo_body) \<Longrightarrow>
   formatCode demo_env p w =
     (None, w\<lparr>trace := trace w @ [EvOpenFile p], files := (files w)(p \<mapsto> demo_header @ demo_body)\<rparr>)"
  by (simp add: formatCode_def demo_env_def parser_ParseFile_def ioutil_ReadFile_content_def
      os_OpenFile_def log_event_def Let_def)

lemma demo_Write:
  assumes sec: "\<And>p w. write_sections (Sections f ''goa.design/cellar/gen'') p w =
     (None, w\<lparr>files := (files w)(p \<mapsto> ioutil_ReadFile_content p w @ demo_header @ demo_body)\<rparr>)"
    and p: "filepath_Join [Dir wr, OutputPath f (Files wr)] = p" and ext: "filepath_Ext p = ''.go''"
  shows "Write demo_env wr f w =
     (Inr p, wr\<lparr>Files := insert p (Files wr)\<rparr>,
      w\<lparr>trace := trace w @ [EvMkdirAll (filepath_Dir p), EvOpenFile p, EvImportDir (Dir wr), EvOpenFile p],
        dirs := insert (filepath_Dir p) (dirs w),
        files := (files w)(p \<mapsto> demo_header @ demo_body)\<rparr>)"
proof -
  have env: "mkdirAll_err demo_env = (\<lambda>w dir. None)" "openFile_err demo_env = (\<lambda>w path. None)"
    "importDir_res demo_env = (\<lambda>w dir. Inr ''goa.design/cellar/gen'')"
    by (simp_all add: demo_env_def)
  show ?thesis
    unfolding Write_def Let_def p
    by (simp add: os_MkdirAll_def os_OpenFile_def build_ImportDir_def log_event_def env sec ext
        ioutil_ReadFile_content_def demo_formatCode)
qed

lemma demo_main_OutputPath: "OutputPath demo_main reserved = ''main.go''"
  by (simp add: demo_main_def mainFile_File_def mainFile_OutputPath_def)

lemma renaming_write_sections:
  "write_sections (Sections renaming_file genPkg) p w =
     (None, w\<lparr>files := (files w)(p \<mapsto> ioutil_ReadFile_content p w @ demo_header @ demo_body)\<rparr>)"
  by (simp add: renaming_file_def demo_write_sections)

lemma demo_two_files_at:
  "write_files demo_env (NewWriter ''out'') [demo_file ''server.go'', demo_file ''client.go''] w =
     (Inr [''out/server.go'', ''out/client.go''],
      \<lparr>Dir = ''out'', Files = {''out/client.go'', ''out/server.go''}\<rparr>,
      w\<lparr>trace := trace w @
           [EvMkdirAll ''out'', EvOpenFile ''out/server.go'', EvImportDir ''out'', EvOpenFile ''out/server.go'',
            EvMkdirAll ''out'', EvOpenFile ''out/client.go'', EvImportDir ''out'', EvOpenFile ''out/client.go''],
        dirs := insert ''out'' (dirs w),
        files := (files w)(''out/server.go'' \<mapsto> demo_header @ demo_body,
                           ''out/client.go'' \<mapsto> demo_header @ demo_body)\<rparr>)"
proof -
  have p: "\<And>wr name. filepath_Join [Dir wr, OutputPath (demo_file name) (Files wr)] = filepath_Join [Dir wr, name]"
    by (simp add: demo_file_def)
  show ?thesis
    by (simp add: demo_Write [OF demo_write_sections p] demo_paths NewWriter_def)
qed

theorem Write_registry_witness:
  "Files (fst (snd (Write demo_env (NewWriter ''out'') demo_main world0))) = {''out/main.go''} \<and>
   Files (fst (snd (Write readonly_env (NewWriter ''out'') demo_main world0))) = {}"
proof -
  have p: "\<And>wr. Dir wr = ''out'' \<Longrightarrow> filepath_Join [Dir wr, OutputPath demo_main (Files wr)] = ''out/main.go''"
    by (simp add: demo_main_OutputPath demo_paths)
  have 1: "fst (Write demo_env (NewWriter ''out'') demo_main world0) = Inr ''out/main.go''"
    by (simp add: demo_Write [OF demo_main_write_sections p] demo_paths NewWriter_def)
  have env: "mkdirAll_err readonly_env = (\<lambda>w dir. None)"
    "openFile_err readonly_env = (\<lambda>w path. Some ''permission denied'')"
    by (simp_all add: readonly_env_def demo_env_def)
  have 2: "fst (Write readonly_env (NewWriter ''out'') demo_main world0) = Inl ''permission denied''"
    by (simp add: Write_def Let_def os_MkdirAll_def os_OpenFile_def env)
  from Write_registry [OF triple_collapse, of demo_env "NewWriter ''out''" demo_main world0] 1
  have "Files (fst (snd (Write demo_env (NewWriter ''out'') demo_main world0))) =
      insert ''out/main.go'' (Files (NewWriter ''out''))"
    by blast
  then have a: "Files (fst (snd (Write demo_env (NewWriter ''out'') demo_main world0))) = {''out/main.go''}"
    by (simp add: NewWriter_def)
  from Write_registry [OF triple_collapse, of readonly_env "NewWriter ''out''" demo_main world0] 2
  have "Files (fst (snd (Write readonly_env (NewWriter ''out'') demo_main world0))) =
      Files (NewWriter ''out'')"
    by blast
  then have b: "Files (fst (snd (Write readonly_env (NewWriter ''out'') demo_main world0))) = {}"
    by (simp add: NewWriter_def)
  from a b show ?thesis ..
qed


subsection \<open>Paths of one session\<close>

text \<open>
  Claim C2. The claim is that the paths returned by the successful writes of one session
  are pairwise distinct. The code returns the same path twice. The main file asks for
  \<open>main.go\<close> whatever is reserved, and \<open>Write\<close> does not compare the path with the
  registry: two main files written to \<open>out\<close> both end at \<open>out/main.go\<close>. A file that
  does look for its relative path \<open>service.go\<close> in the reserved set does not find it
  there, because the registry holds \<open>out/service.go\<close>: written twice, it also returns
  the same path twice.
\<close>

theorem same_path_written_twice:
  "fst (write_files demo_env (NewWriter ''out'') [demo_main, demo_main] world0) =
     Inr [''out/main.go'', ''out/main.go''] \<and>
   fst (write_files demo_env (NewWriter ''out'') [renaming_file, renaming_file] world0) =
     Inr [''out/service.go'', ''out/service.go'']"
proof -
  have p: "\<And>wr. Dir wr = ''out'' \<Longrightarrow> filepath_Join [Dir wr, OutputPath demo_main (Files wr)] = ''out/main.go''"
    by (simp add: demo_main_OutputPath demo_paths)
  have q: "\<And>wr. Dir wr = ''out'' \<Longrightarrow> ''service.go'' \<notin> Files wr \<Longrightarrow>
      filepath_Join [Dir wr, OutputPath renaming_file (Files wr)] = ''out/service.go''"
    by (simp add: renaming_file_def demo_paths)
  have 1: "fst (write_files demo_env (NewWriter ''out'') [demo_main, demo_main] world0) =
     Inr [''out/main.go'', ''out/main.go'']"
    by (simp add: demo_Write [OF demo_main_write_sections p] demo_paths NewWriter_def)
  have 2: "fst (write_files demo_env (NewWriter ''out'') [renaming_file, renaming_file] world0) =
     Inr [''out/service.go'', ''out/service.go'']"
    by (simp add: demo_Write [OF renaming_write_sections q] demo_paths NewWriter_def)
  from 1 2 show ?thesis ..
qed


subsection \<open>The keys of the registry\<close>



lemma write_files_paths:
  "write_files env wr fs w = (Inr outs, wr', w') \<Longrightarrow>
   Files wr' = Files wr \<union> set outs \<and> Dir wr' = Dir wr \<and> length outs = length fs \<and>
   (\<forall>i<length fs.
      outs ! i = filepath_Join [Dir wr, OutputPath (fs ! i) (Files wr \<union> set (take i outs))])"
proof (induction fs arbitrary: wr w outs)
  case Nil
  then show ?case by simp
next
  case (Cons f fs)
  from Cons.prems obtain p wr1 w1 ps where
    1: "Write env wr f w = (Inr p, wr1, w1)" and
    2: "write_files env wr1 fs w1 = (Inr ps, wr', w')" and
    outs: "outs = p # ps"
    by (auto split: prod.splits sum.splits)
  from Write_result [OF 1] have p: "p = filepath_Join [Dir wr, OutputPath f (Files wr)]"
    and wr1: "Files wr1 = insert p (Files wr)" "Dir wr1 = Dir wr" by simp_all
  from Cons.IH [OF 2] have ih: "Files wr' = Files wr1 \<union> set ps" "Dir wr' = Dir wr1"
    "length ps = length fs"
    "\<And>i. i < length fs \<Longrightarrow>
       ps ! i = filepath_Join [Dir wr1, OutputPath (fs ! i) (Files wr1 \<union> set (take i ps))]"
    by simp_all
  have nth: "outs ! i = filepath_Join [Dir wr, OutputPath ((f # fs) ! i) (Files wr \<union> set (take i outs))]"
    if "i < length (f # fs)" for i
  proof (cases i)
    case 0
    with p outs show ?thesis by simp
  next
    case (Suc j)
    with that have "j < length fs" by simp
    have eq: "insert p (Files wr) \<union> set (take j ps) = Files wr \<union> set (take (Suc j) (p # ps))"
      by auto
    from ih(4) [OF \<open>j < length fs\<close>]
    have "ps ! j = filepath_Join [Dir wr, OutputPath (fs ! j) (Files wr \<union> set (take (Suc j) (p # ps)))]"
      unfolding wr1 eq .
    then show ?thesis
      unfolding Suc outs by simp
  qed
  have a: "Files wr' = Files wr \<union> set outs"
    unfolding ih(1) wr1(1) outs by auto
  have b: "Dir wr' = Dir wr"
    unfolding ih(2) wr1(2) ..
  have c: "length outs = length (f # fs)"
    unfolding outs using ih(3) by simp
  from nth have d: "\<forall>i<length (f # fs).
      outs ! i = filepath_Join [Dir wr, OutputPath ((f # fs) ! i) (Files wr \<union> set (take i outs))]"
    by blast
  from a b c d show ?case by (intro conjI)
qed








subsection \<open>The import path of the session's directory\<close>

lemma formatCode_trace_any:
  "formatCode env p w = (r, w') \<Longrightarrow> trace w' = trace w \<or> trace w' = trace w @ [EvOpenFile p]"
  by (auto simp: formatCode_def os_OpenFile_def log_event_def Let_def
      split: sum.splits option.splits prod.splits)

lemma importDir_events_simps [simp]:
  "importDir_events [] = []"
  "importDir_events (EvImportDir d # evs) = EvImportDir d # importDir_events evs"
  "importDir_events (EvMkdirAll d # evs) = importDir_events evs"
  "importDir_events (EvOpenFile d # evs) = importDir_events evs"
  "importDir_events (xs @ ys) = importDir_events xs @ importDir_events ys"
  by (simp_all add: importDir_events_def)

lemma Write_calls:
  assumes "Write env wr file w = (r, wr', w')"
  shows "let p = filepath_Join [Dir wr, OutputPath file (Files wr)]; d = filepath_Dir p
         in \<exists>evs. trace w' = trace w @ evs \<and>
              (if fst (os_MkdirAll env d w) = None \<and>
                  fst (os_OpenFile env p (snd (os_MkdirAll env d w))) = None
               then \<exists>rest. evs = [EvMkdirAll d, EvOpenFile p, EvImportDir (Dir wr)] @ rest \<and>
                      importDir_events rest = []
               else importDir_events evs = [] \<and> (\<exists>err. r = Inl err))"
proof -
  define p where "p = filepath_Join [Dir wr, OutputPath file (Files wr)]"
  define d where "d = filepath_Dir p"
  obtain r1 w1 where 1: "os_MkdirAll env d w = (r1, w1)" by (cases "os_MkdirAll env d w") auto
  obtain r2 w2 where 2: "os_OpenFile env p w1 = (r2, w2)" by (cases "os_OpenFile env p w1") auto
  obtain r3 w3 where 3: "build_ImportDir env (Dir wr) w2 = (r3, w3)"
    by (cases "build_ImportDir env (Dir wr) w2") auto
  from 1 have t1: "trace w1 = trace w @ [EvMkdirAll d]"
    by (auto simp: os_MkdirAll_def log_event_def Let_def split: option.splits)
  from 2 have t2: "trace w2 = trace w1 @ [EvOpenFile p]"
    by (auto simp: os_OpenFile_def log_event_def Let_def split: option.splits)
  from 3 have t3: "trace w3 = trace w2 @ [EvImportDir (Dir wr)]"
    by (auto simp: build_ImportDir_def log_event_def)
  have goal: "\<exists>evs. trace w' = trace w @ evs \<and>
              (if fst (os_MkdirAll env d w) = None \<and>
                  fst (os_OpenFile env p (snd (os_MkdirAll env d w))) = None
               then \<exists>rest. evs = [EvMkdirAll d, EvOpenFile p, EvImportDir (Dir wr)] @ rest \<and>
                      importDir_events rest = []
               else importDir_events evs = [] \<and> (\<exists>err. r = Inl err))"
  proof (cases r1)
    case (Some e)
    with assms 1 have "w' = w1" "r = Inl e"
      by (simp_all add: Write_def Let_def p_def [symmetric] d_def [symmetric])
    with t1 1 Some show ?thesis by simp
  next
    case None
    note n1 = this
    show ?thesis
    proof (cases r2)
      case (Some e)
      with assms 1 2 n1 have "w' = w2" "r = Inl e"
        by (simp_all add: Write_def Let_def p_def [symmetric] d_def [symmetric])
      with t1 t2 1 2 n1 Some show ?thesis by simp
    next
      case None
      note n2 = this
      have "\<exists>rest. trace w' = trace w3 @ rest \<and> importDir_events rest = []"
      proof (cases r3)
        case (Inl e)
        with assms 1 2 3 n1 n2 have "w' = w3"
          by (simp add: Write_def Let_def p_def [symmetric] d_def [symmetric])
        then show ?thesis by simp
      next
        case (Inr genPkg)
        obtain r4 w4 where 4: "write_sections (Sections file genPkg) p w3 = (r4, w4)"
          by (cases "write_sections (Sections file genPkg) p w3") auto
        obtain r5 w5 where 5: "formatCode env p w4 = (r5, w5)" by (cases "formatCode env p w4") auto
        from write_sections_trace [OF 4] have t4: "trace w4 = trace w3" by simp
        from assms 1 2 3 4 5 n1 n2 Inr have "w' = w4 \<or> w' = w5"
          by (simp add: Write_def Let_def p_def [symmetric] d_def [symmetric]
              split: option.splits if_splits)
        with t4 formatCode_trace_any [OF 5] show ?thesis by auto
      qed
      then obtain rest where "trace w' = trace w3 @ rest" "importDir_events rest = []" by blast
      with t1 t2 t3 1 2 n1 n2 show ?thesis by simp
    qed
  qed
  then show ?thesis unfolding Let_def p_def d_def .
qed

lemma Write_importDir_events:
  assumes "Write env wr file w = (Inr p, wr', w')"
  shows "importDir_events (drop (length (trace w)) (trace w')) = [EvImportDir (Dir wr)]"
  using Write_trace [OF assms] by simp

lemma Write_trace_prefix:
  assumes "Write env wr file w = (r, wr', w')"
  shows "\<exists>evs. trace w' = trace w @ evs"
  using Write_calls [OF assms] unfolding Let_def by blast

lemma write_files_importDir_events:
  "write_files env wr fs w = (Inr outs, wr', w') \<Longrightarrow>
   \<exists>evs. trace w' = trace w @ evs \<and>
         importDir_events evs = replicate (length fs) (EvImportDir (Dir wr))"
proof (induction fs arbitrary: wr w outs)
  case Nil
  then show ?case by simp
next
  case (Cons f fs)
  from Cons.prems obtain p wr1 w1 ps where
    1: "Write env wr f w = (Inr p, wr1, w1)" and
    2: "write_files env wr1 fs w1 = (Inr ps, wr', w')"
    by (auto split: prod.splits sum.splits)
  from Write_result [OF 1] have d: "Dir wr1 = Dir wr" by simp
  from Write_trace [OF 1] obtain e1 where e1: "trace w1 = trace w @ e1"
    "importDir_events e1 = [EvImportDir (Dir wr)]" by (cases "filepath_Ext p = ''.go''") auto
  from Cons.IH [OF 2] d obtain e2 where e2: "trace w' = trace w1 @ e2"
    "importDir_events e2 = replicate (length fs) (EvImportDir (Dir wr))" by auto
  from e1 e2 have "trace w' = trace w @ (e1 @ e2)"
    "importDir_events (e1 @ e2) = replicate (length (f # fs)) (EvImportDir (Dir wr))"
    by simp_all
  then show ?case by blast
qed

text \<open>
  Claim C4, as the code has it. The writer keeps no import path. A call of \<open>Write\<close>
  that has created the directory and opened its file calls \<open>build.ImportDir\<close> on the
  directory of the session, once and directly after the file was opened, whatever
  becomes of the call afterwards; a call that fails before makes no such call and
  returns an error. A session that writes all its files makes one such call for each
  file, each on the directory of the session.
\<close>

theorem importDir_resolved_by_every_Write:
  "(Write env wr f w = (r, wr', w') \<longrightarrow>
      (let p = filepath_Join [Dir wr, OutputPath f (Files wr)]; d = filepath_Dir p
       in \<exists>evs. trace w' = trace w @ evs \<and>
            (if fst (os_MkdirAll env d w) = None \<and>
                fst (os_OpenFile env p (snd (os_MkdirAll env d w))) = None
             then \<exists>rest. evs = [EvMkdirAll d, EvOpenFile p, EvImportDir (Dir wr)] @ rest \<and>
                    importDir_events rest = []
             else importDir_events evs = [] \<and> (\<exists>err. r = Inl err)))) \<and>
   (write_files env wr fs w = (Inr outs, wr'', w'') \<longrightarrow>
      importDir_events (drop (length (trace w)) (trace w'')) =
        replicate (length fs) (EvImportDir (Dir wr)))"
proof (intro conjI impI)
  assume "Write env wr f w = (r, wr', w')"
  from Write_calls [OF this]
  show "let p = filepath_Join [Dir wr, OutputPath f (Files wr)]; d = filepath_Dir p
       in \<exists>evs. trace w' = trace w @ evs \<and>
            (if fst (os_MkdirAll env d w) = None \<and>
                fst (os_OpenFile env p (snd (os_MkdirAll env d w))) = None
             then \<exists>rest. evs = [EvMkdirAll d, EvOpenFile p, EvImportDir (Dir wr)] @ rest \<and>
                    importDir_events rest = []
             else importDir_events evs = [] \<and> (\<exists>err. r = Inl err))" .
next
  assume "write_files env wr fs w = (Inr outs, wr'', w'')"
  from write_files_importDir_events [OF this]
  show "importDir_events (drop (length (trace w)) (trace w'')) =
        replicate (length fs) (EvImportDir (Dir wr))" by auto
qed

theorem importDir_resolved_by_every_Write_witness:
  "importDir_events (drop (length (trace world0)) (trace (snd (snd
      (write_files demo_env (NewWriter ''out'') [demo_file ''server.go'', demo_file ''client.go''] world0))))) =
     [EvImportDir ''out'', EvImportDir ''out''] \<and>
   (\<exists>rest. trace (snd (snd (Write demo_env (NewWriter ''out'') demo_main world0))) =
       trace world0 @ [EvMkdirAll ''out'', EvOpenFile ''out/main.go'', EvImportDir ''out''] @ rest \<and>
       importDir_events rest = []) \<and>
   (\<exists>evs. trace (snd (snd (Write readonly_env (NewWriter ''out'') demo_main world0))) = trace world0 @ evs \<and>
       importDir_events evs = [])"
proof -
  have p: "filepath_Join [Dir (NewWriter ''out''), OutputPath demo_main (Files (NewWriter ''out''))] = ''out/main.go''"
    by (simp add: demo_main_OutputPath demo_paths NewWriter_def)
  have d: "Dir (NewWriter ''out'') = ''out''" by (simp add: NewWriter_def)
  have a: "importDir_events (drop (length (trace world0)) (trace (snd (snd
      (write_files demo_env (NewWriter ''out'') [demo_file ''server.go'', demo_file ''client.go''] world0))))) =
     [EvImportDir ''out'', EvImportDir ''out'']"
    unfolding demo_two_files_at
    using importDir_resolved_by_every_Write [THEN conjunct2, THEN mp, OF demo_two_files_at [of world0]]
    by (simp add: d numeral_2_eq_2)
  have env: "mkdirAll_err demo_env = (\<lambda>w dir. None)" "openFile_err demo_env = (\<lambda>w path. None)"
    "mkdirAll_err readonly_env = (\<lambda>w dir. None)"
    "openFile_err readonly_env = (\<lambda>w path. Some ''permission denied'')"
    by (simp_all add: readonly_env_def demo_env_def)
  have b: "\<exists>rest. trace (snd (snd (Write demo_env (NewWriter ''out'') demo_main world0))) =
       trace world0 @ [EvMkdirAll ''out'', EvOpenFile ''out/main.go'', EvImportDir ''out''] @ rest \<and>
       importDir_events rest = []"
    using importDir_resolved_by_every_Write [where env = demo_env and wr = "NewWriter ''out''"
        and f = demo_main and w = world0, THEN conjunct1, THEN mp, OF triple_collapse]
    by (auto simp: Let_def NewWriter_def demo_main_OutputPath demo_paths os_MkdirAll_def
        os_OpenFile_def env)
  have c: "\<exists>evs. trace (snd (snd (Write readonly_env (NewWriter ''out'') demo_main world0))) = trace world0 @ evs \<and>
       importDir_events evs = []"
    using importDir_resolved_by_every_Write [where env = readonly_env and wr = "NewWriter ''out''"
        and f = demo_main and w = world0, THEN conjunct1, THEN mp, OF triple_collapse]
    by (auto simp: Let_def NewWriter_def demo_main_OutputPath demo_paths os_MkdirAll_def
        os_OpenFile_def env)
  from a b c show ?thesis by (intro conjI)
qed

text \<open>
  The claim as it was stated, that the import path is resolved at most once in a
  session, fails on two files: both are written, and \<open>build.ImportDir\<close> is called
  twice.
\<close>

theorem importDir_called_per_write:
  "fst (write_files demo_env (NewWriter ''out'') [demo_file ''server.go'', demo_file ''client.go''] world0) =
     Inr [''out/server.go'', ''out/client.go''] \<and>
   importDir_calls (trace (snd (snd
     (write_files demo_env (NewWriter ''out'') [demo_file ''server.go'', demo_file ''client.go''] world0)))) = 2"
  unfolding demo_two_files_at by (simp add: importDir_calls_def world0_def)


subsection \<open>Unused imports\<close>

text \<open>What \<open>formatCode\<close> returns and writes does not depend on \<open>astutil.UsesImport\<close> nor
  on the two functions that delete an import from the tree.\<close>

lemma formatCode_cleaning_unused:
  "formatCode (env\<lparr>astutil_UsesImport := u, astutil_DeleteNamedImport := dn, astutil_DeleteImport := d\<rparr>) path w =
   formatCode env path w"
proof -
  let ?env = "env\<lparr>astutil_UsesImport := u, astutil_DeleteNamedImport := dn, astutil_DeleteImport := d\<rparr>"
  have p: "parser_ParseFile ?env path w = parser_ParseFile env path w"
    by (simp add: parser_ParseFile_def split: option.splits)
  have o: "os_OpenFile ?env path w = os_OpenFile env path w"
    by (simp add: os_OpenFile_def)
  show ?thesis
  proof (cases "parser_ParseFile env path w")
    case (Inl err)
    with p show ?thesis by (simp add: formatCode_def Let_def)
  next
    case (Inr tree)
    show ?thesis
    proof (cases "imports_Process env path (ioutil_ReadFile_content path w)")
      case (Inl err)
      with p Inr show ?thesis by (simp add: formatCode_def Let_def)
    next
      case b: (Inr b)
      with p o Inr show ?thesis by (simp add: formatCode_def Let_def)
    qed
  qed
qed

lemma demo_uses:
  "demo_UsesImport demo_ast ''fmt''" "\<not> demo_UsesImport demo_ast ''os''"
  by (simp_all add: demo_UsesImport_def demo_ast_def strings_Trim_def)

lemma demo_clean_imports:
  "clean_imports demo_env demo_ast = demo_ast\<lparr>ast_imports := [[\<lparr>imp_Name = None, imp_Path_Value = [dquote] @ ''fmt'' @ [dquote]\<rparr>]]\<rparr>"
proof -
  have env: "astutil_Imports demo_env = ast_imports" "astutil_UsesImport demo_env = demo_UsesImport"
    "astutil_DeleteImport demo_env = (\<lambda>f path. demo_DeleteNamedImport f [] path)"
    by (simp_all add: demo_env_def)
  have del: "demo_DeleteNamedImport demo_ast [] ''os'' =
     demo_ast\<lparr>ast_imports := [[\<lparr>imp_Name = None, imp_Path_Value = [dquote] @ ''fmt'' @ [dquote]\<rparr>]]\<rparr>"
    by (simp add: demo_DeleteNamedImport_def demo_ast_def strings_Trim_def)
  have 1: "clean_import demo_env demo_ast \<lparr>imp_Name = None, imp_Path_Value = [dquote] @ ''fmt'' @ [dquote]\<rparr> = demo_ast"
    unfolding clean_import_def Let_def env
    using demo_uses by (simp add: strings_Trim_def)
  have 2: "clean_import demo_env demo_ast \<lparr>imp_Name = None, imp_Path_Value = [dquote] @ ''os'' @ [dquote]\<rparr> =
      demo_DeleteNamedImport demo_ast [] ''os''"
    unfolding clean_import_def Let_def env
    using demo_uses by (simp add: strings_Trim_def)
  have "clean_imports demo_env demo_ast =
      clean_import demo_env
        (clean_import demo_env demo_ast \<lparr>imp_Name = None, imp_Path_Value = [dquote] @ ''fmt'' @ [dquote]\<rparr>)
        \<lparr>imp_Name = None, imp_Path_Value = [dquote] @ ''os'' @ [dquote]\<rparr>"
    unfolding clean_imports_def env by (simp add: demo_ast_def)
  also have "\<dots> = demo_DeleteNamedImport demo_ast [] ''os''"
    unfolding 1 2 ..
  finally show ?thesis unfolding del .
qed

text \<open>When \<open>formatCode\<close> succeeds, the file holds what \<open>imports.Process\<close> made of the
  bytes that were in the file when \<open>formatCode\<close> was called.\<close>

lemma formatCode_writes_processed_content:
  assumes "formatCode env path w = (None, w')"
  shows "imports_Process env path (ioutil_ReadFile_content path w) = Inr (ioutil_ReadFile_content path w')"
proof (cases "parser_ParseFile env path w")
  case (Inl err)
  with assms show ?thesis by (simp add: formatCode_def Let_def)
next
  case (Inr tree)
  show ?thesis
  proof (cases "imports_Process env path (ioutil_ReadFile_content path w)")
    case (Inl err)
    with assms Inr show ?thesis by (simp add: formatCode_def Let_def)
  next
    case b: (Inr b)
    with assms Inr show ?thesis
      by (auto simp: formatCode_def Let_def os_OpenFile_def ioutil_ReadFile_content_def
          split: option.splits)
  qed
qed

text \<open>
  Claim C1. The claim is that after normalization the file declares exactly the imports
  that its body uses. The code removes the unused imports from the syntax tree only, and
  then formats and writes the bytes it had read before. For the file that imports \<open>fmt\<close>
  and \<open>os\<close> and uses \<open>fmt\<close>, \<open>formatCode\<close> succeeds and the file is written back as it
  was: the parser still finds both imports in it and \<open>os\<close> is still not used, while the
  tree cleaned by the loops of \<open>formatCode\<close> imports \<open>fmt\<close> alone.
\<close>

theorem formatCode_keeps_unused_import:
  "formatCode demo_env ''out/main.go''
      (world0\<lparr>files := [''out/main.go'' \<mapsto> demo_header @ demo_body]\<rparr>) =
     (None, \<lparr>files = [''out/main.go'' \<mapsto> demo_header @ demo_body], dirs = {},
             trace = [EvOpenFile ''out/main.go'']\<rparr>) \<and>
   parser_Parse demo_env ''out/main.go'' (demo_header @ demo_body) = Inr demo_ast \<and>
   map (map (\<lambda>s. strings_Trim (imp_Path_Value s) dquote)) (astutil_Imports demo_env demo_ast) =
     [[''fmt'', ''os'']] \<and>
   astutil_UsesImport demo_env demo_ast ''os'' = False \<and>
   map (map (\<lambda>s. strings_Trim (imp_Path_Value s) dquote))
     (astutil_Imports demo_env (clean_imports demo_env demo_ast)) = [[''fmt'']]"
proof -
  have a: "formatCode demo_env ''out/main.go''
      (world0\<lparr>files := [''out/main.go'' \<mapsto> demo_header @ demo_body]\<rparr>) =
     (None, \<lparr>files = [''out/main.go'' \<mapsto> demo_header @ demo_body], dirs = {},
             trace = [EvOpenFile ''out/main.go'']\<rparr>)"
    by (simp add: demo_formatCode world0_def)
  have b: "parser_Parse demo_env ''out/main.go'' (demo_header @ demo_body) = Inr demo_ast"
    by (simp add: demo_env_def)
  have env: "astutil_Imports demo_env = ast_imports" "astutil_UsesImport demo_env = demo_UsesImport"
    by (simp_all add: demo_env_def)
  have c: "map (map (\<lambda>s. strings_Trim (imp_Path_Value s) dquote)) (astutil_Imports demo_env demo_ast) =
     [[''fmt'', ''os'']]"
    unfolding env by (simp add: demo_ast_def strings_Trim_def)
  have d: "astutil_UsesImport demo_env demo_ast ''os'' = False"
    unfolding env by (simp add: demo_uses)
  have e: "map (map (\<lambda>s. strings_Trim (imp_Path_Value s) dquote))
     (astutil_Imports demo_env (clean_imports demo_env demo_ast)) = [[''fmt'']]"
    unfolding demo_clean_imports env by (simp add: strings_Trim_def)
  from a b c d e show ?thesis by (intro conjI)
qed


section \<open>Properties of the generated driver\<close>

text \<open>
  Claim C5. When the value of \<open>--version\<close> differs from the version compiled into the
  driver, the driver exits with code 1 and has done nothing before: the world is the one
  it started in, so the description was not evaluated, no generator was called and no
  file was written, and nothing was printed to standard output.
\<close>

theorem version_gate:
  "version \<noteq> drv_Version g \<Longrightarrow>
   exit_code (fst (driver_main g env gen out version w)) = 1 \<and>
   stdout (fst (driver_main g env gen out version w)) = [] \<and>
   snd (driver_main g env gen out version w) = w"
  by (simp add: driver_main_def fail_def)

theorem version_gate_witness:
  "exit_code (fst (driver_main demo_gen demo_env ''Server'' ''out'' ''v1.9.0'' world0)) = 1 \<and>
   stdout (fst (driver_main demo_gen demo_env ''Server'' ''out'' ''v1.9.0'' world0)) = [] \<and>
   snd (driver_main demo_gen demo_env ''Server'' ''out'' ''v1.9.0'' world0) = world0"
proof -
  have "''v1.9.0'' \<noteq> drv_Version demo_gen" by (simp add: demo_gen_def)
  from version_gate [OF this] show ?thesis .
qed

text \<open>\<open>sort.Strings\<close> puts the strings in increasing order; a list has one sorted
  arrangement, so the result is that of \<^const>\<open>sort\<close>, and it depends on the strings only,
  not on their order.\<close>

lemma sort_mset_eq: "mset xs = mset ys \<Longrightarrow> sort xs = sort (ys :: string list)"
  by (rule properties_for_sort) simp_all

lemma write_files_length:
  "write_files env wr fs w = (Inr outs, wr', w') \<Longrightarrow> length outs = length fs"
  using write_files_paths by blast

lemma driver_main_success:
  fixes g :: "('r, 'd) gen_env"
  assumes "driver_main g env gen out version w = (r, w')" and "exit_code r = 0"
  shows "\<exists>w1 roots w2 (fls :: 'd File list) w3 outs wr.
           out \<noteq> [] \<and> version = drv_Version g \<and> eval_Context_Errors g = None \<and>
           eval_RunDSL g w = (None, w1) \<and>
           eval_Context_Roots g w1 = (Inr roots, w2) \<and>
           generator_call g gen roots w2 = (Inr fls, w3) \<and>
           write_files env (NewWriter out) fls w3 = (Inr outs, wr, w') \<and>
           r = \<lparr>exit_code = 0, stdout = strings_Join (sort outs) nl @ nl, stderr = []\<rparr>"
proof -
  have x: "exit_code (fail g msg vals) \<noteq> 0" for msg vals
    by (simp add: fail_def)
  from assms x have f: "out \<noteq> []" "version \<noteq> []" "version = drv_Version g"
    by (auto simp: driver_main_def split: if_splits)
  with assms(1) have m0: "(case eval_Context_Errors g of
        Some err \<Rightarrow> (fail g err [], w)
      | None \<Rightarrow>
      (case eval_RunDSL g w of
        (Some err, w1) \<Rightarrow> (fail g err [], w1)
      | (None, w1) \<Rightarrow>
      (case eval_Context_Roots g w1 of
        (Inl err, w2) \<Rightarrow> (fail g err [], w2)
      | (Inr roots, w2) \<Rightarrow>
      (case generator_call g gen roots w2 of
        (Inl err, w3) \<Rightarrow> (fail g err [], w3)
      | (Inr fs, w3) \<Rightarrow>
      (case write_files env (NewWriter out) ([] @ fs) w3 of
        (Inl err, wr, w4) \<Rightarrow> (fail g err [], w4)
      | (Inr outputs, wr, w4) \<Rightarrow>
          (\<lparr>exit_code = 0, stdout = strings_Join (sort outputs) nl @ nl, stderr = []\<rparr>, w4)))))) = (r, w')"
    unfolding driver_main_def by simp
  have e0: "eval_Context_Errors g = None"
  proof (cases "eval_Context_Errors g")
    case (Some err)
    with m0 assms(2) x show ?thesis by auto
  qed
  obtain r1 w1 where 1: "eval_RunDSL g w = (r1, w1)" by (cases "eval_RunDSL g w") auto
  have r1: "r1 = None"
  proof (cases r1)
    case (Some err)
    with m0 e0 1 assms(2) x show ?thesis by auto
  qed
  obtain r2 w2 where 2: "eval_Context_Roots g w1 = (r2, w2)" by (cases "eval_Context_Roots g w1") auto
  obtain roots where r2: "r2 = Inr roots"
  proof (cases r2)
    case (Inl err)
    with m0 e0 1 r1 2 assms(2) x show ?thesis by auto
  qed
  obtain r3 w3 where 3: "generator_call g gen roots w2 = (r3, w3)"
    by (cases "generator_call g gen roots w2") auto
  obtain fls where r3: "r3 = Inr fls"
  proof (cases r3)
    case (Inl err)
    with m0 e0 1 r1 2 r2 3 assms(2) x show ?thesis by auto
  qed
  obtain r4 wr w4 where 4: "write_files env (NewWriter out) fls w3 = (r4, wr, w4)"
    by (cases "write_files env (NewWriter out) fls w3") auto
  obtain outs where r4: "r4 = Inr outs"
  proof (cases r4)
    case (Inl err)
    with m0 e0 1 r1 2 r2 3 r3 4 assms(2) x show ?thesis by auto
  qed
  from m0 e0 1 r1 2 r2 3 r3 4 r4
  have "w' = w4" "r = \<lparr>exit_code = 0, stdout = strings_Join (sort outs) nl @ nl, stderr = []\<rparr>"
    by (auto simp del: sort_key_simps)
  with f e0 1 r1 2 r2 3 r3 4 r4 show ?thesis by blast
qed

text \<open>
  Claim C7. When the driver exits with code 0, the description was evaluated, the
  generator gave its files, the writer of the output directory wrote every one of them,
  and what the driver has printed is the list of the paths that these writes returned,
  one for each file, sorted in the order of strings, joined by newlines and ended by a
  newline. The output is the same for every order in which the same paths might have
  been returned.
\<close>

theorem driver_output_sorted:
  fixes g :: "('r, 'd) gen_env"
  assumes "driver_main g env gen out version w = (r, w')" and "exit_code r = 0"
  shows "\<exists>w1 roots w2 (fls :: 'd File list) w3 outs wr.
           eval_RunDSL g w = (None, w1) \<and>
           eval_Context_Roots g w1 = (Inr roots, w2) \<and>
           generator_call g gen roots w2 = (Inr fls, w3) \<and>
           write_files env (NewWriter out) fls w3 = (Inr outs, wr, w') \<and>
           length outs = length fls \<and>
           stdout r = strings_Join (sort outs) nl @ nl \<and>
           sorted (sort outs) \<and> mset (sort outs) = mset outs \<and>
           (\<forall>outs'. mset outs' = mset outs \<longrightarrow> strings_Join (sort outs') nl @ nl = stdout r)"
proof -
  from driver_main_success [OF assms] obtain w1 roots w2 and fls :: "'d File list" and w3 outs wr
    where 1: "eval_RunDSL g w = (None, w1)"
      and 2: "eval_Context_Roots g w1 = (Inr roots, w2)"
      and 3: "generator_call g gen roots w2 = (Inr fls, w3)"
      and 4: "write_files env (NewWriter out) fls w3 = (Inr outs, wr, w')"
      and r: "r = \<lparr>exit_code = 0, stdout = strings_Join (sort outs) nl @ nl, stderr = []\<rparr>"
    by blast
  from r have s: "stdout r = strings_Join (sort outs) nl @ nl" by simp
  have o: "\<forall>outs'. mset outs' = mset outs \<longrightarrow> strings_Join (sort outs') nl @ nl = stdout r"
    using s sort_mset_eq by metis
  from 1 2 3 4 write_files_length [OF 4] s o show ?thesis
    by (intro exI conjI) simp_all
qed

lemma demo_sort: "sort [''out/server.go'', ''out/client.go''] = [''out/client.go'', ''out/server.go'']"
  by simp

lemma demo_driver_run:
  "fst (driver_main demo_gen demo_env ''Server'' ''out'' ''v2.0.0'' world0) =
     \<lparr>exit_code = 0, stdout = ''out/client.go'' @ nl @ ''out/server.go'' @ nl, stderr = []\<rparr>"
proof -
  have g: "eval_Context_Errors demo_gen = None" "runDSL_err demo_gen = (\<lambda>w. None)"
    "roots_res demo_gen = (\<lambda>w. Inr [()])" "drv_Version demo_gen = ''v2.0.0''"
    "generator_res demo_gen = (\<lambda>name w roots. Inr [demo_file ''server.go'', demo_file ''client.go''])"
    by (simp_all add: demo_gen_def)
  show ?thesis
    unfolding driver_main_def eval_RunDSL_def eval_Context_Roots_def generator_call_def g
    by (simp add: demo_two_files_at demo_sort del: write_files.simps sort_key_simps)
qed

theorem driver_output_sorted_witness:
  "exit_code (fst (driver_main demo_gen demo_env ''Server'' ''out'' ''v2.0.0'' world0)) = 0 \<and>
   stdout (fst (driver_main demo_gen demo_env ''Server'' ''out'' ''v2.0.0'' world0)) =
     ''out/client.go'' @ nl @ ''out/server.go'' @ nl \<and>
   (\<exists>fls outs w3 wr.
      generator_call demo_gen ''Server'' [()] (world0\<lparr>trace := [EvRunDSL, EvRoots]\<rparr>) = (Inr fls, w3) \<and>
      write_files demo_env (NewWriter ''out'') fls w3 =
        (Inr outs, wr, snd (driver_main demo_gen demo_env ''Server'' ''out'' ''v2.0.0'' world0)) \<and>
      stdout (fst (driver_main demo_gen demo_env ''Server'' ''out'' ''v2.0.0'' world0)) =
        strings_Join (sort outs) nl @ nl \<and> sorted (sort outs))"
proof -
  have e: "exit_code (fst (driver_main demo_gen demo_env ''Server'' ''out'' ''v2.0.0'' world0)) = 0"
    by (simp add: demo_driver_run)
  have s: "stdout (fst (driver_main demo_gen demo_env ''Server'' ''out'' ''v2.0.0'' world0)) =
     ''out/client.go'' @ nl @ ''out/server.go'' @ nl"
    by (simp add: demo_driver_run)
  have g: "runDSL_err demo_gen = (\<lambda>w. None)" "roots_res demo_gen = (\<lambda>w. Inr [()])"
    by (simp_all add: demo_gen_def)
  have 1: "eval_RunDSL demo_gen world0 = (None, world0\<lparr>trace := [EvRunDSL]\<rparr>)"
    by (simp add: eval_RunDSL_def g log_event_def world0_def)
  have 2: "eval_Context_Roots demo_gen (world0\<lparr>trace := [EvRunDSL]\<rparr>) =
      (Inr [()], world0\<lparr>trace := [EvRunDSL, EvRoots]\<rparr>)"
    by (simp add: eval_Context_Roots_def g log_event_def world0_def)
  from driver_output_sorted [OF prod.collapse [symmetric] e]
  have "\<exists>fls outs w3 wr.
      generator_call demo_gen ''Server'' [()] (world0\<lparr>trace := [EvRunDSL, EvRoots]\<rparr>) = (Inr fls, w3) \<and>
      write_files demo_env (NewWriter ''out'') fls w3 =
        (Inr outs, wr, snd (driver_main demo_gen demo_env ''Server'' ''out'' ''v2.0.0'' world0)) \<and>
      stdout (fst (driver_main demo_gen demo_env ''Server'' ''out'' ''v2.0.0'' world0)) =
        strings_Join (sort outs) nl @ nl \<and> sorted (sort outs)"
    unfolding 1 by (auto simp: 2 simp del: sort_key_simps)
  with e s show ?thesis by (intro conjI)
qed


section \<open>Properties of the orchestrator\<close>

text \<open>
  Claim C8. When the import path of the description does not resolve, \<open>generate\<close>
  returns the error of \<open>build.Import\<close> and has made no other call: no workspace is
  created, no driver is written, and no process is started. The world is the one
  \<open>generate\<close> started in, with the one call to \<open>build.Import\<close> added to the trace.
\<close>

theorem generate_unresolvable:
  "import_err host w path = Some err \<Longrightarrow>
   generate host env Header mainTmpl cmds path output gens debug w =
     (Returned (Inl err), w\<lparr>trace := trace w @ [EvImport path]\<rparr>)"
  by (simp add: generate_def build_Import_def log_event_def)

theorem generate_unresolvable_witness:
  "generate demo_host demo_env demo_Header demo_mainTmpl [''server''] ''no/such/design'' ''.''
     False False world0 =
   (Returned (Inl ''cannot find package no/such/design''),
    world0\<lparr>trace := trace world0 @ [EvImport ''no/such/design'']\<rparr>)"
proof -
  have "import_err demo_host world0 ''no/such/design'' = Some ''cannot find package no/such/design''"
    by (simp add: demo_host_def)
  from generate_unresolvable [OF this] show ?thesis .
qed

subsection \<open>The workspace\<close>

text \<open>No step of \<open>generate\<close> after the creation of the workspace removes a directory,
  but the deferred \<open>os.RemoveAll\<close>.\<close>

lemma os_MkdirAll_dirs: "os_MkdirAll env d w = (r, w') \<Longrightarrow> dirs w \<subseteq> dirs w'"
  by (auto simp: os_MkdirAll_def log_event_def Let_def split: option.splits)

lemma os_OpenFile_dirs: "os_OpenFile env p w = (r, w') \<Longrightarrow> dirs w' = dirs w"
  by (auto simp: os_OpenFile_def log_event_def Let_def split: option.splits)

lemma build_ImportDir_dirs: "build_ImportDir env d w = (r, w') \<Longrightarrow> dirs w' = dirs w"
  by (auto simp: build_ImportDir_def log_event_def)

lemma formatCode_dirs: "formatCode env p w = (r, w') \<Longrightarrow> dirs w' = dirs w"
  by (auto simp: formatCode_def Let_def dest: os_OpenFile_dirs split: sum.splits prod.splits option.splits)

lemma write_sections_dirs: "write_sections ss path w = (r, w') \<Longrightarrow> dirs w' = dirs w"
  using write_sections_trace by blast

lemma Write_dirs:
  assumes "Write env wr file w = (r, wr', w')"
  shows "dirs w \<subseteq> dirs w'"
proof -
  define p where "p = filepath_Join [Dir wr, OutputPath file (Files wr)]"
  obtain r1 w1 where 1: "os_MkdirAll env (filepath_Dir p) w = (r1, w1)" by (cases "os_MkdirAll env (filepath_Dir p) w") auto
  obtain r2 w2 where 2: "os_OpenFile env p w1 = (r2, w2)" by (cases "os_OpenFile env p w1") auto
  obtain r3 w3 where 3: "build_ImportDir env (Dir wr) w2 = (r3, w3)" by (cases "build_ImportDir env (Dir wr) w2") auto
  note d1 = os_MkdirAll_dirs [OF 1] and d2 = os_OpenFile_dirs [OF 2] and d3 = build_ImportDir_dirs [OF 3]
  show ?thesis
  proof (cases r1)
    case (Some e)
    with assms 1 d1 show ?thesis by (simp add: Write_def Let_def p_def [symmetric])
  next
    case None
    note n1 = this
    show ?thesis
    proof (cases r2)
      case (Some e)
      with assms 1 2 n1 d1 d2 show ?thesis by (simp add: Write_def Let_def p_def [symmetric])
    next
      case None
      note n2 = this
      show ?thesis
      proof (cases r3)
        case (Inl e)
        with assms 1 2 3 n1 n2 d1 d2 d3 show ?thesis by (simp add: Write_def Let_def p_def [symmetric])
      next
        case (Inr genPkg)
        obtain r4 w4 where 4: "write_sections (Sections file genPkg) p w3 = (r4, w4)"
          by (cases "write_sections (Sections file genPkg) p w3") auto
        obtain r5 w5 where 5: "formatCode env p w4 = (r5, w5)" by (cases "formatCode env p w4") auto
        note d4 = write_sections_dirs [OF 4] and d5 = formatCode_dirs [OF 5]
        from assms 1 2 3 4 5 n1 n2 Inr have "w' = w4 \<or> w' = w5"
          by (simp add: Write_def Let_def p_def [symmetric] split: option.splits if_splits)
        with d1 d2 d3 d4 d5 show ?thesis by auto
      qed
    qed
  qed
qed


lemma exec_CombinedOutput_dirs:
  "exec_CombinedOutput host p args d w = (r, w') \<Longrightarrow> dirs w' = dirs w"
  by (auto simp: exec_CombinedOutput_def log_event_def)

lemma generate_run_dirs:
  assumes "generate_run host env Header mainTmpl cmds path output gobin tmpDir w = (r, w')"
  shows "dirs w \<subseteq> dirs w'"
  using assms unfolding generate_run_def Let_def
  by (auto dest!: Write_dirs exec_CombinedOutput_dirs split: prod.splits option.splits sum.splits)

lemma under_refl: "under p p"
  by (simp add: under_def)

text \<open>
  Claim C3, as the code has it. Once the workspace exists, whether it is still there
  when \<open>generate\<close> is left depends on \<open>debug\<close> alone, not on how the run ends: with
  \<open>debug\<close> the workspace is kept and the world is the one the run left; without, the
  last thing \<open>generate\<close> does is to remove the workspace, whether the driver was written,
  compiled and run or one of these steps failed or \<open>Main\<close> panicked.
\<close>

theorem workspace_kept_iff_debug:
  assumes "tmpDir \<in> dirs w"
    and "generate_staged host env Header mainTmpl cmds path output debug gobin tmpDir w = (r, w')"
  shows "(tmpDir \<in> dirs w') = debug \<and>
         (if debug
          then w' = snd (generate_run host env Header mainTmpl cmds path output gobin tmpDir w)
          else last (trace w') = EvRemoveAll tmpDir)"
proof -
  obtain r1 w1 where 1: "generate_run host env Header mainTmpl cmds path output gobin tmpDir w = (r1, w1)"
    by (cases "generate_run host env Header mainTmpl cmds path output gobin tmpDir w") auto
  from generate_run_dirs [OF 1] assms(1) have in1: "tmpDir \<in> dirs w1" by auto
  from assms(2) 1 have w': "w' = (if \<not> debug then os_RemoveAll tmpDir w1 else w1)"
    by (simp add: generate_staged_def)
  show ?thesis
    using in1 by (simp add: w' 1 os_RemoveAll_def log_event_def under_refl)
qed

theorem workspace_kept_iff_debug_witness:
  "(''goagen123'' \<in> dirs (snd (generate_staged failing_host demo_env demo_Header demo_mainTmpl
        [''server'', ''openapi''] ''goa.design/cellar/design'' ''.'' False ''/usr/bin/go'' ''goagen123''
        (world0\<lparr>dirs := {''goagen123''}\<rparr>)))) = False \<and>
   (''goagen123'' \<in> dirs (snd (generate_staged failing_host demo_env demo_Header demo_mainTmpl
        [''server'', ''openapi''] ''goa.design/cellar/design'' ''.'' True ''/usr/bin/go'' ''goagen123''
        (world0\<lparr>dirs := {''goagen123''}\<rparr>)))) = True"
proof -
  have d: "''goagen123'' \<in> dirs (world0\<lparr>dirs := {''goagen123''}\<rparr>)" by simp
  note a = workspace_kept_iff_debug [OF d prod.collapse [symmetric], of failing_host demo_env
        demo_Header demo_mainTmpl "[''server'', ''openapi'']" "''goa.design/cellar/design''" "''.''"
        False "''/usr/bin/go''", THEN conjunct1]
  note b = workspace_kept_iff_debug [OF d prod.collapse [symmetric], of failing_host demo_env
        demo_Header demo_mainTmpl "[''server'', ''openapi'']" "''goa.design/cellar/design''" "''.''"
        True "''/usr/bin/go''", THEN conjunct1]
  from a b show ?thesis by (rule conjI)
qed

lemma demo_Main:
  "Main [''server'', ''openapi''] ''goa.design/cellar/design'' =
     Inr \<lparr>Generators = [''Server'', ''OpenAPI''], DesignPath = ''goa.design/cellar/design''\<rparr>"
  by (simp add: Main_def command_generator_def)

lemma demo_workspace_write:
  "Write demo_env (NewWriter ''goagen123'') demo_main w =
     (Inr ''goagen123/main.go'', \<lparr>Dir = ''goagen123'', Files = {''goagen123/main.go''}\<rparr>,
      w\<lparr>trace := trace w @ [EvMkdirAll ''goagen123'', EvOpenFile ''goagen123/main.go'',
                             EvImportDir ''goagen123'', EvOpenFile ''goagen123/main.go''],
        dirs := insert ''goagen123'' (dirs w),
        files := (files w)(''goagen123/main.go'' \<mapsto> demo_header @ demo_body)\<rparr>)"
proof -
  have o: "\<And>reserved. OutputPath demo_main reserved = ''main.go''"
    by (simp add: demo_main_def mainFile_File_def mainFile_OutputPath_def)
  have p: "\<And>wr. Dir wr = ''goagen123'' \<Longrightarrow>
      filepath_Join [Dir wr, OutputPath demo_main (Files wr)] = ''goagen123/main.go''"
    by (simp add: o demo_paths)
  show ?thesis
    by (simp add: demo_Write [OF demo_main_write_sections p] demo_paths NewWriter_def)
qed

lemma failing_run:
  "generate_run failing_host demo_env demo_Header demo_mainTmpl [''server'', ''openapi'']
      ''goa.design/cellar/design'' ''.'' ''/usr/bin/go'' ''goagen123'' w =
   (Returned (Inl ''failed to compile generator: build failed''),
    w\<lparr>trace := trace w @ [EvMkdirAll ''goagen123'', EvOpenFile ''goagen123/main.go'',
                           EvImportDir ''goagen123'', EvOpenFile ''goagen123/main.go'',
                           EvCommand ''/usr/bin/go'' [''/usr/bin/go'', ''build'', ''-o'', ''goagen''] ''goagen123''],
      dirs := insert ''goagen123'' (dirs w),
      files := (files w)(''goagen123/main.go'' \<mapsto> demo_header @ demo_body)\<rparr>)"
proof -
  have h: "runtime_GOOS failing_host = ''linux''"
    "combinedOutput_res failing_host = (\<lambda>w path args dir. (''build failed'', Some ''exit status 2''))"
    "fmt_Sprintf failing_host = (\<lambda>format vals. format)"
    by (simp_all add: failing_host_def demo_host_def)
  show ?thesis
    unfolding generate_run_def demo_Main
    by (simp add: demo_main_def [symmetric] demo_workspace_write exec_CombinedOutput_def h
        log_event_def)
qed

text \<open>
  The claim as it was stated, that the workspace is retained when a stage fails, fails
  on a run without \<open>debug\<close> whose compilation fails: the workspace \<open>goagen123\<close> is
  created, the driver is written, the compiler fails, and the workspace is removed
  before \<open>generate\<close> returns the error.
\<close>

theorem failed_run_removes_workspace:
  "fst (generate failing_host demo_env demo_Header demo_mainTmpl [''server'', ''openapi'']
          ''goa.design/cellar/design'' ''.'' False False world0) =
     Returned (Inl ''failed to compile generator: build failed'') \<and>
   trace (snd (generate failing_host demo_env demo_Header demo_mainTmpl [''server'', ''openapi'']
          ''goa.design/cellar/design'' ''.'' False False world0)) =
     [EvImport ''goa.design/cellar/design'', EvLookPath ''go'', EvGetwd, EvTempDir ''.'' ''goagen'',
      EvMkdirAll ''goagen123'', EvOpenFile ''goagen123/main.go'', EvImportDir ''goagen123'',
      EvOpenFile ''goagen123/main.go'',
      EvCommand ''/usr/bin/go'' [''/usr/bin/go'', ''build'', ''-o'', ''goagen''] ''goagen123'',
      EvRemoveAll ''goagen123''] \<and>
   ''goagen123'' \<notin> dirs (snd (generate failing_host demo_env demo_Header demo_mainTmpl
          [''server'', ''openapi''] ''goa.design/cellar/design'' ''.'' False False world0))"
proof -
  have h: "import_err failing_host = (\<lambda>w path. if path = ''goa.design/cellar/design'' then None
                               else Some (''cannot find package '' @ path))"
    "lookPath_res failing_host = (\<lambda>w name. Some ''/usr/bin/go'')"
    "getwd_res failing_host = (\<lambda>w. (''/home/dev/cellar'', None))"
    "tempDir_res failing_host = (\<lambda>w dir pfx. Inr ''goagen123'')"
    by (simp_all add: failing_host_def demo_host_def)
  have "generate failing_host demo_env demo_Header demo_mainTmpl [''server'', ''openapi'']
          ''goa.design/cellar/design'' ''.'' False False world0 =
        generate_staged failing_host demo_env demo_Header demo_mainTmpl [''server'', ''openapi'']
          ''goa.design/cellar/design'' ''.'' False ''/usr/bin/go'' ''goagen123''
          \<lparr>files = Map.empty, dirs = {''goagen123''},
           trace = [EvImport ''goa.design/cellar/design'', EvLookPath ''go'', EvGetwd,
                    EvTempDir ''.'' ''goagen'']\<rparr>"
    by (simp add: generate_def build_Import_def exec_LookPath_def os_Getwd_def ioutil_TempDir_def
        log_event_def h world0_def Let_def)
  then show ?thesis
    by (simp add: generate_staged_def failing_run os_RemoveAll_def log_event_def under_refl)
qed

end
